theory Spec2Isabelle
  imports Complex_Main "HOL-Library.AList"
begin

section \<open>JavaScript numbers\<close>

text \<open>
  The analyzers compute on JavaScript \<open>number\<close>s. A number is modelled as \<open>NaN\<close>, one of
  the two infinities, or a finite value. Finite values are idealised as exact reals: rounding
  error, overflow of finite arithmetic and the sign of zero are not modelled (a zero divisor
  is taken as \<open>+0\<close>). Everything else follows the language: \<open>NaN\<close> is absorbing and
  compares false with everything, a division by zero gives an infinity or \<open>NaN\<close>,
  \<open>Infinity - Infinity\<close> and \<open>0 * Infinity\<close> are \<open>NaN\<close>.
\<close>

datatype jsnum = NaN | PInf | NInf | Fin real

fun js_neg :: "jsnum \<Rightarrow> jsnum" where
  "js_neg NaN = NaN"
| "js_neg PInf = NInf"
| "js_neg NInf = PInf"
| "js_neg (Fin a) = Fin (- a)"

fun js_add :: "jsnum \<Rightarrow> jsnum \<Rightarrow> jsnum" where
  "js_add (Fin a) (Fin b) = Fin (a + b)"
| "js_add NaN _ = NaN"
| "js_add _ NaN = NaN"
| "js_add PInf NInf = NaN"
| "js_add NInf PInf = NaN"
| "js_add PInf _ = PInf"
| "js_add _ PInf = PInf"
| "js_add NInf _ = NInf"
| "js_add _ NInf = NInf"

definition js_sub :: "jsnum \<Rightarrow> jsnum \<Rightarrow> jsnum" where
  "js_sub a b = js_add a (js_neg b)"

text \<open>An infinity multiplied by the finite value \<open>r\<close>.\<close>

definition inf_times :: "real \<Rightarrow> jsnum" where
  "inf_times r = (if r = 0 then NaN else if 0 < r then PInf else NInf)"

fun js_mul :: "jsnum \<Rightarrow> jsnum \<Rightarrow> jsnum" where
  "js_mul (Fin a) (Fin b) = Fin (a * b)"
| "js_mul NaN _ = NaN"
| "js_mul _ NaN = NaN"
| "js_mul PInf PInf = PInf"
| "js_mul PInf NInf = NInf"
| "js_mul NInf PInf = NInf"
| "js_mul NInf NInf = PInf"
| "js_mul PInf (Fin b) = inf_times b"
| "js_mul NInf (Fin b) = inf_times (- b)"
| "js_mul (Fin a) PInf = inf_times a"
| "js_mul (Fin a) NInf = inf_times (- a)"

fun js_div :: "jsnum \<Rightarrow> jsnum \<Rightarrow> jsnum" where
  "js_div (Fin a) (Fin b) = (if b = 0 then inf_times a else Fin (a / b))"
| "js_div NaN _ = NaN"
| "js_div _ NaN = NaN"
| "js_div (Fin a) _ = Fin 0"
| "js_div PInf (Fin b) = (if 0 \<le> b then PInf else NInf)"
| "js_div NInf (Fin b) = (if 0 \<le> b then NInf else PInf)"
| "js_div _ _ = NaN"

fun js_lt :: "jsnum \<Rightarrow> jsnum \<Rightarrow> bool" where
  "js_lt (Fin a) (Fin b) = (a < b)"
| "js_lt NaN _ = False"
| "js_lt _ NaN = False"
| "js_lt _ NInf = False"
| "js_lt NInf _ = True"
| "js_lt PInf _ = False"
| "js_lt _ PInf = True"

fun js_le :: "jsnum \<Rightarrow> jsnum \<Rightarrow> bool" where
  "js_le (Fin a) (Fin b) = (a \<le> b)"
| "js_le NaN _ = False"
| "js_le _ NaN = False"
| "js_le NInf _ = True"
| "js_le _ PInf = True"
| "js_le _ _ = False"

definition js_gt :: "jsnum \<Rightarrow> jsnum \<Rightarrow> bool" where
  "js_gt a b = js_lt b a"

definition js_ge :: "jsnum \<Rightarrow> jsnum \<Rightarrow> bool" where
  "js_ge a b = js_le b a"

text \<open>\<open>a === b\<close> on numbers: \<open>NaN\<close> is not equal to itself.\<close>

definition js_seq :: "jsnum \<Rightarrow> jsnum \<Rightarrow> bool" where
  "js_seq a b = (a \<noteq> NaN \<and> a = b)"

definition isNaN :: "jsnum \<Rightarrow> bool" where
  "isNaN x = (x = NaN)"

text \<open>Truthiness of a number: \<open>0\<close> and \<open>NaN\<close> are falsy.\<close>

definition truthy :: "jsnum \<Rightarrow> bool" where
  "truthy x = (x \<noteq> NaN \<and> x \<noteq> Fin 0)"

text \<open>\<open>x || d\<close> for an optional number \<open>x\<close>: an absent (\<open>undefined\<close>) or falsy \<open>x\<close> gives \<open>d\<close>.\<close>

definition or_default :: "jsnum option \<Rightarrow> jsnum \<Rightarrow> jsnum" where
  "or_default x d = (case x of None \<Rightarrow> d | Some v \<Rightarrow> if truthy v then v else d)"

definition Math_max :: "jsnum \<Rightarrow> jsnum \<Rightarrow> jsnum" where
  "Math_max a b = (if a = NaN \<or> b = NaN then NaN else if js_lt a b then b else a)"

definition Math_min :: "jsnum \<Rightarrow> jsnum \<Rightarrow> jsnum" where
  "Math_min a b = (if a = NaN \<or> b = NaN then NaN else if js_lt b a then b else a)"

fun Math_abs :: "jsnum \<Rightarrow> jsnum" where
  "Math_abs NaN = NaN"
| "Math_abs PInf = PInf"
| "Math_abs NInf = PInf"
| "Math_abs (Fin a) = Fin \<bar>a\<bar>"

text \<open>\<open>Math.round\<close> rounds to the nearest integer, a tie towards \<open>+Infinity\<close>.\<close>

fun Math_round :: "jsnum \<Rightarrow> jsnum" where
  "Math_round (Fin a) = Fin (of_int \<lfloor>a + 1 / 2\<rfloor>)"
| "Math_round x = x"

fun Math_sqrt :: "jsnum \<Rightarrow> jsnum" where
  "Math_sqrt NaN = NaN"
| "Math_sqrt PInf = PInf"
| "Math_sqrt NInf = NaN"
| "Math_sqrt (Fin a) = (if a < 0 then NaN else Fin (sqrt a))"

text \<open>\<open>Math.pow(x, 2)\<close>.\<close>

definition Math_pow2 :: "jsnum \<Rightarrow> jsnum" where
  "Math_pow2 x = js_mul x x"

text \<open>\<open>xs.reduce((s, v) => s + v, 0)\<close>.\<close>

definition js_sum :: "jsnum list \<Rightarrow> jsnum" where
  "js_sum xs = foldl js_add (Fin 0) xs"

text \<open>
  \<open>xs.slice(s, e)\<close> and \<open>xs.slice(s)\<close>: a negative index counts from the end, and both
  ends are clipped to the array.
\<close>

definition slice_index :: "nat \<Rightarrow> int \<Rightarrow> nat" where
  "slice_index n i = (if i < 0 then nat (max (int n + i) 0) else min (nat i) n)"

definition slice :: "'a list \<Rightarrow> int \<Rightarrow> int \<Rightarrow> 'a list" where
  "slice xs s e = (let n = length xs; s' = slice_index n s; e' = slice_index n e
                   in take (e' - s') (drop s' xs))"

definition slice_from :: "'a list \<Rightarrow> int \<Rightarrow> 'a list" where
  "slice_from xs s = drop (slice_index (length xs) s) xs"

section \<open>Input records (token.types.ts, transaction.types.ts)\<close>

text \<open>An optional field \<open>f?: T\<close> is a \<open>T option\<close>; \<open>None\<close> is \<open>undefined\<close>.\<close>

record TokenInfo =
  address :: string
  symbol :: "string option"
  name :: "string option"
  decimals :: jsnum
  "supply" :: jsnum
  marketCap :: "jsnum option"
  price :: "jsnum option"
  liquidity :: "jsnum option"

datatype TxType = Buy | Sell

text \<open>
  \<open>timestamp\<close> is a \<open>Date\<close>; the field holds what \<open>timestamp.getTime()\<close> returns
  (milliseconds, \<open>NaN\<close> for an invalid date).
\<close>

record TransactionInfo =
  signature :: string
  timestamp :: jsnum
  type :: TxType
  amount :: jsnum
  price :: "jsnum option"

record HolderInfo =
  address :: string
  balance :: jsnum
  percentage :: jsnum
  firstSeen :: "jsnum option"
  lastSeen :: "jsnum option"
  transactionCount :: "jsnum option"
  buyTransactions :: "TransactionInfo list option"
  sellTransactions :: "TransactionInfo list option"
  averageHoldTime :: "jsnum option"
  isJeeter :: "bool option"
  jeeterScore :: "jsnum option"
  isBundle :: "bool option"

record MevPatterns =
  detected :: bool
  sandwichAttacks :: jsnum
  frontRunning :: jsnum
  botLikeBehavior :: jsnum
  score :: jsnum

text \<open>
  \<open>TransactionAnalysis\<close> with the fields the analyzers read. The fields they never read
  (\<open>largeTransactions\<close>, \<open>whaleActivity\<close>, \<open>smartMoneyActivity\<close>,
  \<open>averagePriceImpact\<close>, \<open>highImpactTransactions\<close>) are left out.
\<close>

record TransactionAnalysis =
  buySellRatio :: jsnum
  buyVolume :: jsnum
  sellVolume :: jsnum
  totalVolume :: jsnum
  buySellRatio5m :: jsnum
  buySellRatio15m :: jsnum
  buySellRatio1h :: jsnum
  buySellRatio24h :: jsnum
  largeBuyCount :: jsnum
  largeSellCount :: jsnum
  mevPatterns :: MevPatterns
  transactionCount :: jsnum
  transactionsPerMinute :: jsnum
  averageTransactionSize :: jsnum

record PricePoint =
  price :: jsnum
  timestamp :: jsnum

section \<open>lp-health.analyzer.ts\<close>

datatype LiquidityStability = Stable | Decreasing | Increasing | Volatile

record LPHealthSignals =
  liquidityAmount :: jsnum
  liquidityStability :: LiquidityStability
  lpRatio :: jsnum
  isHealthy :: bool
  healthScore :: jsnum
  risks :: "string list"

text \<open>
  \<open>LPHealthAnalyzer.analyze\<close>. The local \<open>score\<close> and the \<open>risks\<close> array are threaded
  through the three checks in the order of the source.
\<close>

definition LPHealth_analyze :: "TokenInfo \<Rightarrow> LPHealthSignals" where
  "LPHealth_analyze tokenInfo =
    (let liquidity = or_default (TokenInfo.liquidity tokenInfo) (Fin 0);
         marketCap = or_default (TokenInfo.marketCap tokenInfo) (Fin 0);
         ratio = (if js_gt marketCap (Fin 0) then js_div liquidity marketCap else Fin 0);
         (score1, risks1) =
           (if js_lt liquidity (Fin 5000) then (js_sub (Fin 100) (Fin 40), [''LP too thin (<$5k)''])
            else if js_lt liquidity (Fin 10000) then (js_sub (Fin 100) (Fin 20), [''LP low (<$10k)''])
            else if js_lt liquidity (Fin 50000) then (js_sub (Fin 100) (Fin 10), [''LP moderate''])
            else (Fin 100, []));
         (score2, risks2) =
           (if js_gt ratio (Fin 0) then
              (if js_lt ratio (Fin 0.05)
                 then (js_sub score1 (Fin 30), risks1 @ [''LP/MC ratio too low (<5%)''])
               else if js_lt ratio (Fin 0.1)
                 then (js_sub score1 (Fin 15), risks1 @ [''LP/MC ratio low (<10%)''])
               else if js_gt ratio (Fin 0.5)
                 then (js_sub score1 (Fin 10), risks1 @ [''LP/MC ratio suspiciously high (>50%)''])
               else (score1, risks1))
            else (score1, risks1));
         (score3, risks3) =
           (if js_gt marketCap (Fin 0) \<and> js_seq liquidity (Fin 0)
              then (Fin 0, risks2 @ [''No liquidity detected''])
            else (score2, risks2));
         health = Math_max (Fin 0) (Math_min (Fin 100) score3)
     in \<lparr> liquidityAmount = liquidity,
          liquidityStability = Stable,
          lpRatio = ratio,
          isHealthy = js_ge health (Fin 60),
          healthScore = health,
          risks = risks3 \<rparr>)"

section \<open>State threading\<close>

text \<open>
  The analyzers build their result in a mutable object and run a sequence of
  \<open>if (c) { ... }\<close> statements on it. Such a statement is \<open>if_then c body\<close>, a function on
  the object being built.
\<close>

definition if_then :: "bool \<Rightarrow> ('s \<Rightarrow> 's) \<Rightarrow> 's \<Rightarrow> 's" where
  "if_then c body s = (if c then body s else s)"

section \<open>seller-exhaustion.analyzer.ts\<close>

record SellerExhaustionSignals =
  decreasingSellVolume :: bool
  decreasingSellFrequency :: bool
  sellerDominanceCollapse :: bool
  finalLargeSellerExit :: bool
  mevInactivity :: bool
  tightPriceRange :: bool
  volatilityCollapse :: bool
  exhaustionScore :: jsnum
  isBottomSignal :: bool

definition estimateSellVolume15m :: "TransactionAnalysis \<Rightarrow> jsnum" where
  "estimateSellVolume15m analysis =
    (let buyRatio15m = buySellRatio15m analysis;
         totalVolume15m = js_mul (totalVolume analysis) (Fin 0.25)
     in js_mul totalVolume15m (js_sub (Fin 1) buyRatio15m))"

text \<open>The loop \<open>for (i = 1; i < prices.length; i++)\<close> that collects the absolute relative changes.\<close>

fun abs_changes :: "jsnum list \<Rightarrow> jsnum list" where
  "abs_changes (a # b # rest) = Math_abs (js_div (js_sub b a) a) # abs_changes (b # rest)"
| "abs_changes _ = []"

definition calculatePriceVolatility :: "PricePoint list \<Rightarrow> jsnum" where
  "calculatePriceVolatility priceHistory =
    (if length priceHistory < 2 then Fin 1
     else
       let prices = map PricePoint.price priceHistory;
           changes = abs_changes prices;
           avgChange = js_div (js_sum changes) (Fin (real (length changes)));
           variance = js_div (foldl (\<lambda>sum c. js_add sum (Math_pow2 (js_sub c avgChange))) (Fin 0) changes)
                             (Fin (real (length changes)))
       in Math_sqrt variance)"

definition calculateVolatilityTrend :: "PricePoint list \<Rightarrow> jsnum" where
  "calculateVolatilityTrend priceHistory =
    (if length priceHistory < 10 then Fin 0
     else
       let midPoint = int (length priceHistory div 2);
           recent = slice_from priceHistory midPoint;
           earlier = slice priceHistory 0 midPoint;
           recentVolatility = calculatePriceVolatility recent;
           earlierVolatility = calculatePriceVolatility earlier
       in if js_seq earlierVolatility (Fin 0) then Fin 0
          else js_div (js_sub recentVolatility earlierVolatility) earlierVolatility)"

definition SellerExhaustion_init :: SellerExhaustionSignals where
  "SellerExhaustion_init =
    \<lparr> decreasingSellVolume = False, decreasingSellFrequency = False,
      sellerDominanceCollapse = False, finalLargeSellerExit = False, mevInactivity = False,
      tightPriceRange = False, volatilityCollapse = False, exhaustionScore = Fin 0,
      isBottomSignal = False \<rparr>"

text \<open>\<open>signals.exhaustionScore += n\<close>.\<close>

definition add_exhaustion :: "real \<Rightarrow> SellerExhaustionSignals \<Rightarrow> SellerExhaustionSignals" where
  "add_exhaustion n signals = signals\<lparr>exhaustionScore := js_add (exhaustionScore signals) (Fin n)\<rparr>"

definition SellerExhaustion_analyze ::
  "TransactionAnalysis \<Rightarrow> PricePoint list \<Rightarrow> SellerExhaustionSignals" where
  "SellerExhaustion_analyze transactionAnalysis priceHistory =
    (let signals = SellerExhaustion_init;
         \<comment> \<open>1. Decreasing sell volume (last 15m vs last 1h)\<close>
         sellVolume1h = sellVolume transactionAnalysis;
         sellVolume15m = estimateSellVolume15m transactionAnalysis;
         signals = if_then (js_lt sellVolume15m (js_mul sellVolume1h (Fin 0.3)))
                     (\<lambda>s. add_exhaustion 20 (s\<lparr>decreasingSellVolume := True\<rparr>)) signals;
         \<comment> \<open>2. Decreasing sell frequency\<close>
         sellFrequency = largeSellCount transactionAnalysis;
         buyFrequency = largeBuyCount transactionAnalysis;
         signals = if_then (js_lt sellFrequency (js_mul buyFrequency (Fin 0.5)) \<and> js_lt sellFrequency (Fin 3))
                     (\<lambda>s. add_exhaustion 15 (s\<lparr>decreasingSellFrequency := True\<rparr>)) signals;
         \<comment> \<open>3. Seller dominance collapse (buy ratio increasing)\<close>
         signals = if_then (js_gt (buySellRatio transactionAnalysis) (Fin 0.6))
                     (\<lambda>s. add_exhaustion 20 (s\<lparr>sellerDominanceCollapse := True\<rparr>)) signals;
         \<comment> \<open>4. Final large seller exit\<close>
         signals = if_then (js_gt (largeSellCount transactionAnalysis) (Fin 0)
                            \<and> js_le (largeSellCount transactionAnalysis) (Fin 2))
                     (\<lambda>s. add_exhaustion 15 (s\<lparr>finalLargeSellerExit := True\<rparr>)) signals;
         \<comment> \<open>5. MEV/snipe bot inactivity\<close>
         signals = if_then (\<not> detected (mevPatterns transactionAnalysis)
                            \<or> js_lt (MevPatterns.score (mevPatterns transactionAnalysis)) (Fin 20))
                     (\<lambda>s. add_exhaustion 10 (s\<lparr>mevInactivity := True\<rparr>)) signals;
         \<comment> \<open>6. Tight price range (low volatility)\<close>
         priceVolatility = calculatePriceVolatility priceHistory;
         signals = if_then (js_lt priceVolatility (Fin 0.05))
                     (\<lambda>s. add_exhaustion 10 (s\<lparr>tightPriceRange := True\<rparr>)) signals;
         \<comment> \<open>7. Volatility collapse (decreasing volatility over time)\<close>
         volatilityTrend = calculateVolatilityTrend priceHistory;
         signals = if_then (js_lt volatilityTrend (Fin (- 0.2)))
                     (\<lambda>s. add_exhaustion 10 (s\<lparr>volatilityCollapse := True\<rparr>)) signals
     in signals\<lparr>isBottomSignal :=
          js_ge (exhaustionScore signals) (Fin 60) \<and> tightPriceRange signals
          \<and> sellerDominanceCollapse signals \<and> mevInactivity signals\<rparr>)"

section \<open>wallet-quality.analyzer.ts\<close>

datatype WalletCategory =
  Sniper | Jeeter | WeakHands | StrongHands | Whale | MevBot | RouterArbitrageBot | Unknown

text \<open>
  A reason is a fixed string, or the template \<open>Large holder (${percentage.toFixed(2)}%)\<close>
  with the number it formats.
\<close>

datatype Reason = Text string | LargeHolder jsnum

record WalletQualityScore =
  category :: WalletCategory
  score :: jsnum
  confidence :: jsnum
  reasons :: "Reason list"

text \<open>
  The two maps of the analysis are association lists in insertion order; \<open>Map.set\<close> is
  \<open>AList.update\<close> (an existing key keeps its place and gets the new value) and \<open>values()\<close>
  is \<open>map snd\<close>. The category counters are natural numbers.
\<close>

record WalletQualityAnalysis =
  walletScores :: "(string \<times> WalletQualityScore) list"
  categoryDistribution :: "(WalletCategory \<times> nat) list"
  averageHoldTime :: jsnum
  averageSellBuyRatio :: jsnum
  highQualityWalletCount :: nat
  jeeterDominance :: bool
  sniperDominance :: bool
  overallQualityScore :: jsnum

text \<open>\<open>x !== undefined && p(x)\<close> and \<open>x && p(x)\<close> on an optional number.\<close>

definition defined_and :: "jsnum option \<Rightarrow> (jsnum \<Rightarrow> bool) \<Rightarrow> bool" where
  "defined_and x p = (case x of None \<Rightarrow> False | Some v \<Rightarrow> p v)"

definition truthy_and :: "jsnum option \<Rightarrow> (jsnum \<Rightarrow> bool) \<Rightarrow> bool" where
  "truthy_and x p = (case x of None \<Rightarrow> False | Some v \<Rightarrow> truthy v \<and> p v)"

text \<open>A buy followed by a sell less than two minutes later.\<close>

definition quickSell :: "TransactionInfo list \<Rightarrow> TransactionInfo \<Rightarrow> bool" where
  "quickSell sells buy =
    list_ex (\<lambda>sell. js_gt (TransactionInfo.timestamp sell) (TransactionInfo.timestamp buy)
                   \<and> js_lt (js_sub (TransactionInfo.timestamp sell) (TransactionInfo.timestamp buy))
                           (Fin (2 * 60 * 1000))) sells"

definition isSniper :: "HolderInfo \<Rightarrow> bool" where
  "isSniper holder =
    (if defined_and (HolderInfo.averageHoldTime holder) (\<lambda>a. js_lt a (Fin 5))
        \<and> truthy_and (HolderInfo.transactionCount holder) (\<lambda>n. js_gt n (Fin 10))
     then True
     else case (buyTransactions holder, sellTransactions holder) of
            (Some buys, Some sells) \<Rightarrow> 3 < length (filter (quickSell sells) buys)
          | _ \<Rightarrow> False)"

definition isMEVBot :: "HolderInfo \<Rightarrow> bool" where
  "isMEVBot holder =
    (if truthy_and (HolderInfo.transactionCount holder) (\<lambda>n. js_gt n (Fin 50)) then True
     else case buyTransactions holder of
            Some buys \<Rightarrow> 20 < length buys
                         \<and> defined_and (HolderInfo.averageHoldTime holder) (\<lambda>a. js_lt a (Fin 1))
          | None \<Rightarrow> False)"

text \<open>\<open>sellCount / buyCount\<close> of the two array lengths.\<close>

definition sellBuyQuotient :: "TransactionInfo list \<Rightarrow> TransactionInfo list \<Rightarrow> jsnum" where
  "sellBuyQuotient sells buys = js_div (Fin (real (length sells))) (Fin (real (length buys)))"

definition isStrongHands :: "HolderInfo \<Rightarrow> bool" where
  "isStrongHands holder =
    (if (case (sellTransactions holder, buyTransactions holder) of
           (Some sells, Some buys) \<Rightarrow>
              defined_and (HolderInfo.averageHoldTime holder) (\<lambda>a. js_gt a (Fin 120))
              \<and> js_lt (sellBuyQuotient sells buys) (Fin 0.3)
         | _ \<Rightarrow> False)
     then True
     else defined_and (HolderInfo.averageHoldTime holder) (\<lambda>a. js_gt a (Fin 60))
          \<and> (case sellTransactions holder of None \<Rightarrow> True | Some sells \<Rightarrow> length sells = 0))"

definition isWeakHands :: "HolderInfo \<Rightarrow> bool" where
  "isWeakHands holder =
    (case (sellTransactions holder, buyTransactions holder) of
       (Some sells, Some buys) \<Rightarrow>
          defined_and (HolderInfo.averageHoldTime holder) (\<lambda>a. js_lt a (Fin 30))
          \<and> js_gt (sellBuyQuotient sells buys) (Fin 0.7)
     | _ \<Rightarrow> False)"

text \<open>The jeeter rule of \<open>classifyWallet\<close>: \<open>isJeeter || (jeeterScore && jeeterScore > 50)\<close>.\<close>

definition jeeterRule :: "HolderInfo \<Rightarrow> bool" where
  "jeeterRule holder =
    (isJeeter holder = Some True \<or> truthy_and (jeeterScore holder) (\<lambda>s. js_gt s (Fin 50)))"

definition classifyWallet :: "HolderInfo \<Rightarrow> WalletQualityScore" where
  "classifyWallet holder =
    (if isSniper holder then
       \<lparr> category = Sniper, score = Fin 20, confidence = Fin 70,
         reasons = [Text ''Sniper pattern detected''] \<rparr>
     else if jeeterRule holder then
       \<lparr> category = Jeeter, score = Fin 10, confidence = Fin 80,
         reasons = [Text ''Jeeter behavior detected''] \<rparr>
     else if isMEVBot holder then
       \<lparr> category = MevBot, score = Fin 15, confidence = Fin 60,
         reasons = [Text ''MEV bot pattern detected''] \<rparr>
     else if js_gt (percentage holder) (Fin 5) then
       (if truthy_and (HolderInfo.averageHoldTime holder) (\<lambda>a. js_gt a (Fin 60)) then
          \<lparr> category = Whale, score = Fin 85, confidence = Fin 80,
            reasons = [LargeHolder (percentage holder), Text ''Long hold time''] \<rparr>
        else if truthy_and (HolderInfo.averageHoldTime holder) (\<lambda>a. js_lt a (Fin 10)) then
          \<lparr> category = Whale, score = Fin 40, confidence = Fin 80,
            reasons = [LargeHolder (percentage holder), Text ''Quick exits''] \<rparr>
        else
          \<lparr> category = Whale, score = Fin 70, confidence = Fin 80,
            reasons = [LargeHolder (percentage holder)] \<rparr>)
     else if isStrongHands holder then
       \<lparr> category = StrongHands, score = Fin 80, confidence = Fin 75,
         reasons = [Text ''Strong hands pattern''] \<rparr>
     else if isWeakHands holder then
       \<lparr> category = WeakHands, score = Fin 30, confidence = Fin 70,
         reasons = [Text ''Weak hands pattern''] \<rparr>
     else
       \<lparr> category = Unknown, score = Fin 50, confidence = Fin 30,
         reasons = [Text ''Insufficient data''] \<rparr>)"

definition categories :: "WalletCategory list" where
  "categories = [Sniper, Jeeter, WeakHands, StrongHands, Whale, MevBot, RouterArbitrageBot, Unknown]"

text \<open>\<open>categoryDistribution.get(cat) || 0\<close>.\<close>

definition get_count :: "(WalletCategory \<times> nat) list \<Rightarrow> WalletCategory \<Rightarrow> nat" where
  "get_count distribution cat = (case map_of distribution cat of None \<Rightarrow> 0 | Some n \<Rightarrow> n)"

text \<open>One iteration of \<open>for (const holder of holders)\<close> on the two maps.\<close>

definition classify_step ::
  "HolderInfo \<Rightarrow> (string \<times> WalletQualityScore) list \<times> (WalletCategory \<times> nat) list
     \<Rightarrow> (string \<times> WalletQualityScore) list \<times> (WalletCategory \<times> nat) list" where
  "classify_step holder maps =
    (let s = classifyWallet holder;
         currentCount = get_count (snd maps) (category s)
     in (AList.update (HolderInfo.address holder) s (fst maps),
         AList.update (category s) (currentCount + 1) (snd maps)))"

definition classify_all ::
  "HolderInfo list \<Rightarrow> (string \<times> WalletQualityScore) list \<times> (WalletCategory \<times> nat) list" where
  "classify_all holders = fold classify_step holders ([], map (\<lambda>cat. (cat, 0)) categories)"

text \<open>The ratios of the holders that have both transaction arrays.\<close>

definition sellBuyRatios :: "HolderInfo list \<Rightarrow> jsnum list" where
  "sellBuyRatios holders =
    List.map_filter (\<lambda>h. case (sellTransactions h, buyTransactions h) of
        (Some sells, Some buys) \<Rightarrow>
          Some (js_div (Fin (real (length sells)))
                       (Fin (real (if length buys = 0 then 1 else length buys))))
      | _ \<Rightarrow> None) holders"

definition WalletQuality_analyze :: "HolderInfo list \<Rightarrow> WalletQualityAnalysis" where
  "WalletQuality_analyze holders =
    (let (scores, distribution) = classify_all holders in
     if length holders = 0 then
       \<lparr> walletScores = scores, categoryDistribution = distribution, averageHoldTime = Fin 0,
         averageSellBuyRatio = Fin 0, highQualityWalletCount = 0, jeeterDominance = False,
         sniperDominance = False, overallQualityScore = Fin 0 \<rparr>
     else
       let avgHold = js_div (foldl (\<lambda>sum h. js_add sum (or_default (HolderInfo.averageHoldTime h) (Fin 0)))
                               (Fin 0) holders)
                            (Fin (real (length holders)));
           ratios = sellBuyRatios holders;
           avgRatio = (if 0 < length ratios then js_div (js_sum ratios) (Fin (real (length ratios)))
                       else Fin 0);
           highQualityWallets =
             length (filter (\<lambda>s. category s = StrongHands \<or> category s = Whale) (map snd scores));
           jeeterCount = get_count distribution Jeeter;
           sniperCount = get_count distribution Sniper;
           totalWallets = length holders;
           strongHandsCount = get_count distribution StrongHands;
           whaleCount = get_count distribution Whale;
           overall =
             (if 0 < totalWallets then
                js_sub (js_sub (js_mul (js_div (Fin (real (strongHandsCount + whaleCount)))
                                               (Fin (real totalWallets))) (Fin 100))
                               (js_mul (js_div (Fin (real jeeterCount)) (Fin (real totalWallets))) (Fin 50)))
                       (js_mul (js_div (Fin (real sniperCount)) (Fin (real totalWallets))) (Fin 30))
              else Fin 0)
       in \<lparr> walletScores = scores, categoryDistribution = distribution, averageHoldTime = avgHold,
            averageSellBuyRatio = avgRatio, highQualityWalletCount = highQualityWallets,
            jeeterDominance = (0 < totalWallets
               \<and> js_gt (js_div (Fin (real jeeterCount)) (Fin (real totalWallets))) (Fin 0.4)),
            sniperDominance = (0 < totalWallets
               \<and> js_gt (js_div (Fin (real sniperCount)) (Fin (real totalWallets))) (Fin 0.3)),
            overallQualityScore = Math_max (Fin 0) (Math_min (Fin 100) overall) \<rparr>)"

section \<open>jeeter-zone.detector.ts\<close>

record JeeterZoneFlags =
  highSellToBuyRatio :: bool
  fastHolderRotation :: bool
  snipersEnteringEarly :: bool
  quickDumps :: bool
  liquidityDrainage :: bool
  mevSpam :: bool
  tooManySwapBots :: bool
  noStrongWalletAccumulation :: bool
  lpTooThin :: bool
  routerArbitragePump :: bool
  creatorWalletActivity :: bool
  suspiciousLPBehavior :: bool
  riskScore :: jsnum
  isJeeterZone :: bool

definition JeeterZone_init :: JeeterZoneFlags where
  "JeeterZone_init =
    \<lparr> highSellToBuyRatio = False, fastHolderRotation = False, snipersEnteringEarly = False,
      quickDumps = False, liquidityDrainage = False, mevSpam = False, tooManySwapBots = False,
      noStrongWalletAccumulation = False, lpTooThin = False, routerArbitragePump = False,
      creatorWalletActivity = False, suspiciousLPBehavior = False, riskScore = Fin 0,
      isJeeterZone = False \<rparr>"

text \<open>\<open>flags.riskScore += n\<close>.\<close>

definition add_risk :: "real \<Rightarrow> JeeterZoneFlags \<Rightarrow> JeeterZoneFlags" where
  "add_risk n flags = flags\<lparr>riskScore := js_add (riskScore flags) (Fin n)\<rparr>"

definition JeeterZone_detect ::
  "TransactionAnalysis \<Rightarrow> WalletQualityAnalysis \<Rightarrow> TokenInfo \<Rightarrow> JeeterZoneFlags" where
  "JeeterZone_detect transactionAnalysis walletQuality tokenInfo =
    (let flags = JeeterZone_init;
         \<comment> \<open>1. High sell-to-buy ratio\<close>
         sellBuyRatio = js_sub (Fin 1) (buySellRatio transactionAnalysis);
         flags = if_then (js_gt sellBuyRatio (Fin 0.6))
                   (\<lambda>f. add_risk 15 (f\<lparr>highSellToBuyRatio := True\<rparr>)) flags;
         \<comment> \<open>2. Fast holder rotation (low average hold time)\<close>
         flags = if_then (js_lt (WalletQualityAnalysis.averageHoldTime walletQuality) (Fin 10))
                   (\<lambda>f. add_risk 15 (f\<lparr>fastHolderRotation := True\<rparr>)) flags;
         \<comment> \<open>3. Snipers entering early\<close>
         sniperCount = get_count (categoryDistribution walletQuality) Sniper;
         totalWallets = foldl (+) 0 (map snd (categoryDistribution walletQuality));
         flags = if_then (js_gt (js_div (Fin (real sniperCount)) (Fin (real totalWallets))) (Fin 0.3))
                   (\<lambda>f. add_risk 20 (f\<lparr>snipersEnteringEarly := True\<rparr>)) flags;
         \<comment> \<open>4. Quick dumps\<close>
         flags = if_then (js_lt (WalletQualityAnalysis.averageHoldTime walletQuality) (Fin 5))
                   (\<lambda>f. add_risk 20 (f\<lparr>quickDumps := True\<rparr>)) flags;
         \<comment> \<open>5. Liquidity drainage\<close>
         flags = if_then (truthy_and (liquidity tokenInfo) (\<lambda>l. js_lt l (Fin 10000)))
                   (\<lambda>f. add_risk 15 (f\<lparr>lpTooThin := True\<rparr>)) flags;
         \<comment> \<open>6. MEV spam\<close>
         flags = if_then (detected (mevPatterns transactionAnalysis)
                          \<and> js_gt (MevPatterns.score (mevPatterns transactionAnalysis)) (Fin 50))
                   (\<lambda>f. add_risk 15 (f\<lparr>mevSpam := True\<rparr>)) flags;
         \<comment> \<open>7. Too many swap bots\<close>
         mevBotCount = get_count (categoryDistribution walletQuality) MevBot;
         flags = if_then (js_gt (js_div (Fin (real mevBotCount)) (Fin (real totalWallets))) (Fin 0.2))
                   (\<lambda>f. add_risk 10 (f\<lparr>tooManySwapBots := True\<rparr>)) flags;
         \<comment> \<open>8. No strong wallet accumulation\<close>
         flags = if_then (highQualityWalletCount walletQuality = 0)
                   (\<lambda>f. add_risk 15 (f\<lparr>noStrongWalletAccumulation := True\<rparr>)) flags;
         \<comment> \<open>9. LP too thin\<close>
         flags = if_then (truthy_and (liquidity tokenInfo) (\<lambda>l. js_lt l (Fin 5000)))
                   (\<lambda>f. add_risk 20 (f\<lparr>lpTooThin := True\<rparr>)) flags;
         \<comment> \<open>10. Router arbitrage pump\<close>
         flags = if_then (js_gt (transactionsPerMinute transactionAnalysis) (Fin 5)
                          \<and> js_lt (averageTransactionSize transactionAnalysis) (Fin 100))
                   (\<lambda>f. add_risk 10 (f\<lparr>routerArbitragePump := True\<rparr>)) flags;
         \<comment> \<open>11. Jeeter dominance\<close>
         flags = if_then (jeeterDominance walletQuality) (add_risk 25) flags;
         \<comment> \<open>12. Sniper dominance\<close>
         flags = if_then (sniperDominance walletQuality) (add_risk 20) flags
     in flags\<lparr>isJeeterZone := js_ge (riskScore flags) (Fin 50)\<rparr>)"

section \<open>The three-layer analysis engine\<close>

subsection \<open>Tunable parameters\<close>

definition volatilityCollapseStdDev :: real where
  "volatilityCollapseStdDev = 0.03"

definition volatilityCompressionPct :: real where
  "volatilityCompressionPct = - 0.15"

definition jeeterRiskScoreThreshold :: real where
  "jeeterRiskScoreThreshold = 50"

definition weight_microstructure :: real where
  "weight_microstructure = 0.45"

definition weight_structural :: real where
  "weight_structural = 0.45"

definition weight_volatility :: real where
  "weight_volatility = 0.1"

subsection \<open>Utility functions\<close>

text \<open>The loop of \<open>stdDevRelativeChanges\<close> that collects the relative changes.\<close>

fun rel_changes :: "jsnum list \<Rightarrow> jsnum list" where
  "rel_changes (a # b # rest) =
     js_div (js_sub b a) (Math_max (Fin (1 / 10 ^ 12)) a) # rel_changes (b # rest)"
| "rel_changes _ = []"

definition stdDevRelativeChanges :: "jsnum list \<Rightarrow> jsnum" where
  "stdDevRelativeChanges prices =
    (if length prices < 2 then Fin 0
     else
       let changes = rel_changes prices;
           mean = js_div (js_sum changes) (Fin (real (length changes)));
           variance = js_div (foldl (\<lambda>s v. js_add s (Math_pow2 (js_sub v mean))) (Fin 0) changes)
                             (Fin (real (length changes)))
       in Math_sqrt variance)"

subsection \<open>Layer 1: microstructure\<close>

record MicrostructureSignals =
  momentum5s :: jsnum
  momentum15s :: jsnum
  momentum60s :: jsnum
  buySellDelta5s :: jsnum
  buySellDelta15s :: jsnum
  buySellDelta60s :: jsnum
  volatilityStdDevRecent :: jsnum
  volatilityTrendPct :: jsnum
  botActivityIndex :: jsnum
  liquidityVelocity :: jsnum
  microScore :: jsnum
  reasons :: "string list"

definition lastN :: "jsnum list \<Rightarrow> nat \<Rightarrow> jsnum list" where
  "lastN pricesOnly n =
    (if n \<le> length pricesOnly then slice_from pricesOnly (- int n) else slice_from pricesOnly 0)"

definition momentum :: "jsnum list \<Rightarrow> jsnum" where
  "momentum samples =
    (if length samples < 2 then Fin 0
     else
       let last_price = last samples;
           first_price = hd samples
       in if js_seq first_price (Fin 0) \<or> js_lt (Math_abs first_price) (Fin (1 / 10 ^ 12)) then Fin 0
          else Math_max (Fin (- 10)) (Math_min (Fin 10) (js_div (js_sub last_price first_price) first_price)))"

definition clampVolatility :: "jsnum \<Rightarrow> jsnum" where
  "clampVolatility vol = Math_max (Fin 0) (Math_min (Fin 10) vol)"

text \<open>
  \<open>computeMicrostructureSignals\<close>. The flow fields are typed \<open>number\<close>, so the
  \<open>?? fallback\<close> after each of them never applies. \<open>liquidityVelocity\<close> is the constant 0 of
  the source.
\<close>

definition computeMicrostructureSignals ::
  "PricePoint list \<Rightarrow> TransactionAnalysis \<Rightarrow> TokenInfo option \<Rightarrow> MicrostructureSignals" where
  "computeMicrostructureSignals prices tx tokenInfo =
    (let pricesOnly = map PricePoint.price prices;
         n = length pricesOnly;
         m5 = momentum (lastN pricesOnly (max 2 (min 5 n)));
         m15 = momentum (lastN pricesOnly (max 3 (min 15 n)));
         m60 = momentum (lastN pricesOnly (max 5 (min 60 n)));
         bsr5 = buySellRatio5m tx;
         bsr15 = buySellRatio15m tx;
         bsr60 = buySellRatio1h tx;
         delta5s = js_sub bsr5 bsr15;
         delta15s = js_sub bsr15 bsr60;
         delta60s = js_sub bsr60 (buySellRatio tx);
         volRecent = clampVolatility (stdDevRelativeChanges (slice_from pricesOnly (- 30)));
         earlier = (if 60 < n then slice pricesOnly (- 60) (- 30) else slice pricesOnly 0 (- 30));
         earlierVol = clampVolatility (stdDevRelativeChanges earlier);
         volTrend =
           (if js_seq earlierVol (Fin 0) then Fin 0
            else Math_max (Fin (- 1))
                   (Math_min (Fin 1)
                      (js_div (js_sub volRecent earlierVol) (Math_max earlierVol (Fin 0.01)))));
         txPerMin = transactionsPerMinute tx;
         avgTxSize = averageTransactionSize tx;
         botIndex =
           Math_min (Fin 100)
             (Math_round
               (Math_max (Fin 0)
                 (js_add
                   (js_add (js_mul (js_div txPerMin (Fin 30)) (Fin 50))
                           (if js_lt avgTxSize (Fin 100) then Fin 25 else Fin 0))
                   (if detected (mevPatterns tx)
                      then Math_min (MevPatterns.score (mevPatterns tx)) (Fin 25) else Fin 0))));
         liqVelocity = Fin 0;
         ms = Fin 50;
         ms = js_add ms (Math_max (Fin (- 20)) (Math_min (Fin 20) (Math_round (js_mul delta15s (Fin 100)))));
         momentumDeceleration = js_mul (js_sub m15 m60) (Fin 100);
         ms = js_add ms
                (Math_max (Fin (- 15))
                   (Math_min (Fin 15)
                      (Math_round (js_add (js_mul (js_neg m60) (Fin 50)) momentumDeceleration))));
         (ms, reasons1) =
           (if js_lt volTrend (Fin volatilityCompressionPct)
              then (js_add ms (Fin 15), [''Volatility compression detected''])
            else if js_lt volRecent (Fin volatilityCollapseStdDev)
              then (js_add ms (Fin 10), [''Low recent volatility''])
            else (js_sub ms (Fin 10), []));
         ms = js_sub ms (Math_round (js_mul (js_div botIndex (Fin 100)) (Fin 20)));
         ms = js_add ms
                (Math_max (Fin (- 10)) (Math_min (Fin 10) (Math_round (js_mul liqVelocity (Fin 100)))));
         ms = Math_max (Fin 0) (Math_min (Fin 100) (Math_round ms));
         reasons2 = (if js_gt delta15s (Fin 0.05)
                       then reasons1 @ [''Buy pressure increasing on short window''] else reasons1);
         reasons3 = (if js_lt delta15s (Fin (- 0.05))
                       then reasons2 @ [''Buy pressure falling on short window''] else reasons2)
     in \<lparr> momentum5s = m5, momentum15s = m15, momentum60s = m60,
          buySellDelta5s = delta5s, buySellDelta15s = delta15s, buySellDelta60s = delta60s,
          volatilityStdDevRecent = volRecent, volatilityTrendPct = volTrend,
          botActivityIndex = botIndex, liquidityVelocity = liqVelocity,
          microScore = ms, reasons = reasons3 \<rparr>)"

subsection \<open>Layer 2: structural health\<close>

record StructuralSignals =
  walletQualityAnalysis :: WalletQualityAnalysis
  lpHealthSignals :: LPHealthSignals
  sellerExhaustion :: SellerExhaustionSignals
  jeeterFlags :: JeeterZoneFlags
  structuralScore :: jsnum
  reasons :: "string list"

text \<open>\<open>isNaN(x) ? d : x\<close>.\<close>

definition nan_to :: "jsnum \<Rightarrow> jsnum \<Rightarrow> jsnum" where
  "nan_to d x = (if isNaN x then d else x)"

definition computeStructuralSignals ::
  "HolderInfo list \<Rightarrow> TransactionAnalysis \<Rightarrow> TokenInfo \<Rightarrow> PricePoint list \<Rightarrow> StructuralSignals" where
  "computeStructuralSignals holders tx tokenInfo priceHistory =
    (let walletQuality = WalletQuality_analyze holders;
         lpSignals = LPHealth_analyze tokenInfo;
         exhaustionSignals = SellerExhaustion_analyze tx priceHistory;
         flags = JeeterZone_detect tx walletQuality tokenInfo;
         walletQualityScore = nan_to (Fin 0) (overallQualityScore walletQuality);
         lpHealthScore = nan_to (Fin 0) (healthScore lpSignals);
         exhaustion = nan_to (Fin 0) (exhaustionScore exhaustionSignals);
         jeeterRiskScore = nan_to (Fin 0) (riskScore flags);
         st = Fin 50;
         st = js_add st (js_mul walletQualityScore (Fin 0.3));
         st = js_add st (js_mul lpHealthScore (Fin 0.3));
         st = js_add st (js_mul exhaustion (Fin 0.25));
         st = js_sub st (js_mul jeeterRiskScore (Fin 0.4));
         st = Math_max (Fin 0) (Math_min (Fin 100) (Math_round st));
         reasons1 = (if isJeeterZone flags then [''Jeeter zone detected''] else []);
         reasons2 = (if \<not> isHealthy lpSignals then reasons1 @ [''LP health low''] else reasons1);
         reasons3 = (if isBottomSignal exhaustionSignals
                       then reasons2 @ [''Seller exhaustion bottom signal''] else reasons2)
     in \<lparr> walletQualityAnalysis = walletQuality, lpHealthSignals = lpSignals,
          sellerExhaustion = exhaustionSignals, jeeterFlags = flags,
          structuralScore = st, reasons = reasons3 \<rparr>)"

subsection \<open>Layer 3: outcome predictor\<close>

record EntryZone =
  min_price :: jsnum
  max_price :: jsnum
  optimal :: jsnum

datatype RiskLevel = Low | Medium | High

text \<open>
  A line of the \<open>debug\<close> array: one of the two template strings with the numbers they
  format, or a fixed string.
\<close>

datatype DebugLine = DebugScores jsnum jsnum | DebugRaw jsnum | DebugText string

record Outcome =
  isDipOpportunity :: bool
  isDipTrap :: bool
  dipConfidence :: jsnum
  expectedDipDepthPct :: jsnum
  entryZone :: EntryZone
  combinedScore :: jsnum
  riskLevel :: RiskLevel
  debug :: "DebugLine list"

definition zone :: "jsnum \<Rightarrow> real \<Rightarrow> real \<Rightarrow> real \<Rightarrow> EntryZone" where
  "zone currentPrice lo hi opt =
    \<lparr> min_price = js_mul currentPrice (Fin lo), max_price = js_mul currentPrice (Fin hi),
      optimal = js_mul currentPrice (Fin opt) \<rparr>"

text \<open>The weighted sum \<open>combinedScoreRaw\<close> of \<open>predictOutcome\<close>, after the three \<open>isNaN\<close> fallbacks.\<close>

definition combinedScoreRaw :: "jsnum \<Rightarrow> jsnum \<Rightarrow> jsnum \<Rightarrow> jsnum" where
  "combinedScoreRaw ms st vt =
    js_add (js_add (js_mul ms (Fin weight_microstructure)) (js_mul st (Fin weight_structural)))
           (js_mul (Math_max (Fin 0) (js_mul (js_sub (Fin 1) (Math_abs vt)) (Fin 100)))
                   (Fin weight_volatility))"

definition predictOutcome ::
  "jsnum \<Rightarrow> MicrostructureSignals \<Rightarrow> StructuralSignals \<Rightarrow> Outcome" where
  "predictOutcome currentPrice micro structural =
    (let ms = nan_to (Fin 0) (microScore micro);
         st = nan_to (Fin 0) (structuralScore structural);
         vt = nan_to (Fin 0) (volatilityTrendPct micro);
         raw = combinedScoreRaw ms st vt;
         combined = (if isNaN raw then Fin 0
                     else Math_max (Fin 0) (Math_min (Fin 100) (Math_round raw)));
         isJeeter = isJeeterZone (jeeterFlags structural);
         microGood = js_ge ms (Fin 60);
         structuralGood = js_ge st (Fin 55);
         (opportunity, trap, confidence, depth, ez, decision) =
           (if isJeeter then
              (let jeeterRisk = nan_to (Fin 50) (riskScore (jeeterFlags structural))
               in (False, True, Math_max combined jeeterRisk,
                   js_add (Fin 20) (Math_min (Fin 40) (js_div jeeterRisk (Fin 2))),
                   zone currentPrice 0.65 0.9 0.8,
                   ''Decision: Jeeter zone => Trap''))
            else if microGood \<and> structuralGood then
              (True, False, Math_max combined (Fin 60),
               js_add (Fin 3)
                 (Math_max (Fin 0)
                    (js_sub (Fin 10)
                       (Math_round (js_mul (or_default (Some (volatilityStdDevRecent micro)) (Fin 0))
                                           (Fin 100))))),
               zone currentPrice 0.92 1.02 0.98,
               ''Decision: microGood & structuralGood => Opportunity'')
            else if \<not> microGood \<and> \<not> structuralGood then
              (False, True, Math_max combined (Fin 55), Fin 12,
               zone currentPrice 0.75 0.95 0.85,
               ''Decision: microPoor & structuralPoor => Trap'')
            else
              (False, False, Math_round (js_mul combined (Fin 0.7)), Fin 8,
               zone currentPrice 0.85 1.0 0.92,
               ''Decision: Mixed signals => Wait/Cautious''));
         level = (if isJeeter \<or> js_gt (riskScore (jeeterFlags structural)) (Fin jeeterRiskScoreThreshold)
                    then High
                  else if js_gt combined (Fin 70) \<and> \<not> isJeeter then Low
                  else Medium);
         finalDipConfidence = (if isNaN confidence then Fin 0
                               else Math_max (Fin 0) (Math_min (Fin 100) (Math_round confidence)));
         finalExpectedDipDepth = (if isNaN depth then Fin 0
                                  else Math_max (Fin 0) (Math_min (Fin 100) depth))
     in \<lparr> isDipOpportunity = opportunity, isDipTrap = trap,
          dipConfidence = finalDipConfidence, expectedDipDepthPct = finalExpectedDipDepth,
          entryZone = ez, combinedScore = combined, riskLevel = level,
          debug = [DebugScores ms st, DebugRaw raw, DebugText decision] \<rparr>)"

subsection \<open>Orchestrator\<close>

datatype error = TypeError

text \<open>
  \<open>ThreeLayerAnalysisService.analyzeToken\<close>. The function is \<open>async\<close>: \<open>Inl e\<close> is the
  promise rejected with \<open>e\<close>, \<open>Inr\<close> the promise fulfilled. The two layers are computed
  first; then \<open>priceHistory[priceHistory.length - 1].price\<close> reads a property of
  \<open>undefined\<close> when the array is empty, which throws a \<open>TypeError\<close>. The result pairs the
  outcome with the \<open>meta\<close> object attached to it.
\<close>

definition analyzeToken ::
  "PricePoint list \<Rightarrow> TransactionAnalysis \<Rightarrow> HolderInfo list \<Rightarrow> TokenInfo
     \<Rightarrow> error + Outcome \<times> MicrostructureSignals \<times> StructuralSignals" where
  "analyzeToken priceHistory txAnalysis holders tokenInfo =
    (let microSignals = computeMicrostructureSignals priceHistory txAnalysis (Some tokenInfo);
         structural = computeStructuralSignals holders txAnalysis tokenInfo priceHistory
     in case priceHistory of
          [] \<Rightarrow> Inl TypeError
        | _ # _ \<Rightarrow>
            Inr (predictOutcome (PricePoint.price (last priceHistory)) microSignals structural,
                 microSignals, structural))"

section \<open>Example inputs\<close>

text \<open>\<open>TransactionService.getEmptyAnalysis\<close>: the flow statistics of a token with no transactions.\<close>

definition getEmptyAnalysis :: TransactionAnalysis where
  "getEmptyAnalysis =
    \<lparr> buySellRatio = Fin 0.5, buyVolume = Fin 0, sellVolume = Fin 0, totalVolume = Fin 0,
      buySellRatio5m = Fin 0.5, buySellRatio15m = Fin 0.5, buySellRatio1h = Fin 0.5,
      buySellRatio24h = Fin 0.5, largeBuyCount = Fin 0, largeSellCount = Fin 0,
      mevPatterns = \<lparr> detected = False, sandwichAttacks = Fin 0, frontRunning = Fin 0,
                      botLikeBehavior = Fin 0, score = Fin 0 \<rparr>,
      transactionCount = Fin 0, transactionsPerMinute = Fin 0, averageTransactionSize = Fin 0 \<rparr>"

text \<open>Buyers are back: one large sell left, no MEV activity.\<close>

definition recoveringFlow :: TransactionAnalysis where
  "recoveringFlow =
    getEmptyAnalysis\<lparr> buySellRatio := Fin 0.8, buyVolume := Fin 300, sellVolume := Fin 100,
      totalVolume := Fin 400, buySellRatio15m := Fin 0.8, largeBuyCount := Fin 4,
      largeSellCount := Fin 1 \<rparr>"

text \<open>Sellers dominate, MEV bots are active, many small transactions.\<close>

definition hotFlow :: TransactionAnalysis where
  "hotFlow =
    getEmptyAnalysis\<lparr> buySellRatio := Fin 0.2,
      mevPatterns := \<lparr> detected = True, sandwichAttacks = Fin 3, frontRunning = Fin 2,
                       botLikeBehavior = Fin 4, score = Fin 60 \<rparr>,
      transactionsPerMinute := Fin 6, averageTransactionSize := Fin 50 \<rparr>"

definition flatPrices :: "PricePoint list" where
  "flatPrices = [\<lparr> price = Fin 2, timestamp = Fin 1000 \<rparr>, \<lparr> price = Fin 2, timestamp = Fin 2000 \<rparr>]"

subsection \<open>The liquidity schedule in the words of the specification\<close>

text \<open>
  Subtract 40 if liquidity is below $5k, 20 if below $10k, 10 if below $50k; subtract 30 if
  the ratio is below 0.05, 15 if below 0.1, 10 if above 0.5; start at 100, hard-zero when the
  market cap is positive and liquidity is zero.
\<close>

definition spec_liquidity_deduction :: "jsnum \<Rightarrow> real" where
  "spec_liquidity_deduction liq =
    (if js_lt liq (Fin 5000) then 40 else if js_lt liq (Fin 10000) then 20
     else if js_lt liq (Fin 50000) then 10 else 0)"

definition spec_ratio_deduction :: "jsnum \<Rightarrow> real" where
  "spec_ratio_deduction ratio =
    (if js_lt ratio (Fin 0.05) then 30 else if js_lt ratio (Fin 0.1) then 15
     else if js_gt ratio (Fin 0.5) then 10 else 0)"

definition spec_lp_score :: "jsnum \<Rightarrow> jsnum \<Rightarrow> jsnum \<Rightarrow> real" where
  "spec_lp_score liq mc ratio =
    (if js_gt mc (Fin 0) \<and> js_seq liq (Fin 0) then 0
     else max 0 (min 100 (100 - spec_liquidity_deduction liq - spec_ratio_deduction ratio)))"

subsection \<open>Tokens and holders\<close>

definition tokenOf :: "jsnum option \<Rightarrow> jsnum option \<Rightarrow> TokenInfo" where
  "tokenOf liq mc =
    \<lparr> TokenInfo.address = ''So11111111111111111111111111111111111111112'', symbol = None, name = None,
      decimals = Fin 9, supply = Fin 1000000, marketCap = mc, TokenInfo.price = None, liquidity = liq \<rparr>"

definition holderOf :: "jsnum \<Rightarrow> jsnum option \<Rightarrow> jsnum option \<Rightarrow> HolderInfo" where
  "holderOf pct hold txs =
    \<lparr> address = ''holder'', balance = Fin 1000, percentage = pct, firstSeen = None, lastSeen = None,
      transactionCount = txs, buyTransactions = None, sellTransactions = None,
      averageHoldTime = hold, isJeeter = None, jeeterScore = None, isBundle = None \<rparr>"

subsection \<open>Counting the holders of a category\<close>

definition count_category :: "WalletCategory \<Rightarrow> HolderInfo list \<Rightarrow> nat" where
  "count_category c holders = length (filter (\<lambda>h. category (classifyWallet h) = c) holders)"

definition fourHolders :: "HolderInfo list" where
  "fourHolders =
    [holderOf (Fin 1) (Some (Fin 3)) (Some (Fin 15)),
     holderOf (Fin 1) (Some (Fin 90)) (Some (Fin 5)),
     holderOf (Fin 1) None None,
     holderOf (Fin 8) (Some (Fin 3)) (Some (Fin 5))]"

subsection \<open>The risk points that do not depend on liquidity\<close>

text \<open>The points of the ten checks of \<open>JeeterZoneDetector.detect\<close> that do not read the liquidity.\<close>

definition other_risk :: "TransactionAnalysis \<Rightarrow> WalletQualityAnalysis \<Rightarrow> real" where
  "other_risk tx wq =
    (let total = foldl (+) 0 (map snd (categoryDistribution wq)) in
      (if js_gt (js_sub (Fin 1) (buySellRatio tx)) (Fin 0.6) then 15 else 0)
    + (if js_lt (WalletQualityAnalysis.averageHoldTime wq) (Fin 10) then 15 else 0)
    + (if js_gt (js_div (Fin (real (get_count (categoryDistribution wq) Sniper))) (Fin (real total))) (Fin 0.3)
         then 20 else 0)
    + (if js_lt (WalletQualityAnalysis.averageHoldTime wq) (Fin 5) then 20 else 0)
    + (if detected (mevPatterns tx) \<and> js_gt (MevPatterns.score (mevPatterns tx)) (Fin 50) then 15 else 0)
    + (if js_gt (js_div (Fin (real (get_count (categoryDistribution wq) MevBot))) (Fin (real total))) (Fin 0.2)
         then 10 else 0)
    + (if highQualityWalletCount wq = 0 then 15 else 0)
    + (if js_gt (transactionsPerMinute tx) (Fin 5) \<and> js_lt (averageTransactionSize tx) (Fin 100) then 10 else 0)
    + (if jeeterDominance wq then 25 else 0)
    + (if sniperDominance wq then 20 else 0))"

subsection \<open>The combined score in the words of the specification\<close>

text \<open>
  \<open>round(clamp(raw, 0, 100))\<close> of the weighted sum, a \<open>NaN\<close> among the three inputs being
  replaced by 0 first.
\<close>

definition spec_clamp :: "jsnum \<Rightarrow> jsnum" where
  "spec_clamp x = Math_max (Fin 0) (Math_min (Fin 100) x)"

text \<open>
  The weighted sum as the specification writes it:
  \<open>microScore * 0.45 + structuralScore * 0.45 + max(0, 1 - |volatilityTrend|) * 100 * 0.10\<close>.
\<close>

definition spec_weighted_sum :: "jsnum \<Rightarrow> jsnum \<Rightarrow> jsnum \<Rightarrow> jsnum" where
  "spec_weighted_sum ms st vt =
     js_add (js_add (js_mul ms (Fin 0.45)) (js_mul st (Fin 0.45)))
            (js_mul (js_mul (Math_max (Fin 0) (js_sub (Fin 1) (Math_abs vt))) (Fin 100)) (Fin 0.10))"

definition spec_combinedScore :: "jsnum \<Rightarrow> jsnum \<Rightarrow> jsnum \<Rightarrow> jsnum" where
  "spec_combinedScore ms st vt =
     Math_round (spec_clamp (spec_weighted_sum (nan_to (Fin 0) ms) (nan_to (Fin 0) st) (nan_to (Fin 0) vt)))"

text \<open>An infinite score.\<close>

definition isInfinite :: "jsnum \<Rightarrow> bool" where
  "isInfinite x = (x = PInf \<or> x = NInf)"

subsection \<open>Signals\<close>

definition quietMicro :: MicrostructureSignals where
  "quietMicro =
    \<lparr> momentum5s = Fin 0, momentum15s = Fin 0, momentum60s = Fin 0, buySellDelta5s = Fin 0,
      buySellDelta15s = Fin 0, buySellDelta60s = Fin 0, volatilityStdDevRecent = Fin 0,
      volatilityTrendPct = Fin 0, botActivityIndex = Fin 25, liquidityVelocity = Fin 0,
      microScore = Fin 55, MicrostructureSignals.reasons = [''Low recent volatility''] \<rparr>"

definition onePrice :: "PricePoint list" where
  "onePrice = [\<lparr> price = Fin 2, timestamp = Fin 1000 \<rparr>]"

text \<open>The structural layer on no holders, no transactions, a token with no market data.\<close>

definition emptyStructural :: StructuralSignals where
  "emptyStructural = computeStructuralSignals [] getEmptyAnalysis (tokenOf None None) onePrice"

text \<open>The same structural signals with another danger-zone risk score.\<close>

definition withRisk :: "jsnum \<Rightarrow> StructuralSignals \<Rightarrow> StructuralSignals" where
  "withRisk r s = s\<lparr>jeeterFlags := (jeeterFlags s)\<lparr>riskScore := r\<rparr>\<rparr>"

text \<open>Structural signals outside the danger zone, and inside it.\<close>

definition calmStructural :: StructuralSignals where
  "calmStructural = emptyStructural\<lparr>jeeterFlags := JeeterZone_init, structuralScore := Fin 70\<rparr>"

definition dangerStructural :: StructuralSignals where
  "dangerStructural =
     calmStructural\<lparr>jeeterFlags := JeeterZone_init\<lparr>riskScore := Fin 60, isJeeterZone := True\<rparr>\<rparr>"

subsection \<open>Documented range of a score\<close>

text \<open>A score is in range when it is a finite number between 0 and 100.\<close>

definition score_range :: "jsnum \<Rightarrow> bool" where
  "score_range x = (case x of Fin r \<Rightarrow> 0 \<le> r \<and> r \<le> 100 | _ \<Rightarrow> False)"

subsection \<open>Finite numbers and the terms of the micro score\<close>

text \<open>\<open>Number.isFinite\<close>: neither \<open>NaN\<close> nor an infinity.\<close>

definition isFinite :: "jsnum \<Rightarrow> bool" where
  "isFinite x = (case x of Fin r \<Rightarrow> True | _ \<Rightarrow> False)"

text \<open>
  The three terms that \<open>computeMicrostructureSignals\<close> adds to the base 50 besides the
  volatility term: the flow-delta effect, the momentum effect and the bot-activity penalty.
\<close>

definition flowEffect :: "TransactionAnalysis \<Rightarrow> jsnum" where
  "flowEffect tx =
     Math_max (Fin (- 20))
       (Math_min (Fin 20) (Math_round (js_mul (js_sub (buySellRatio15m tx) (buySellRatio1h tx)) (Fin 100))))"

definition momentumEffect :: "PricePoint list \<Rightarrow> jsnum" where
  "momentumEffect ph =
     (let pricesOnly = map PricePoint.price ph;
          n = length pricesOnly;
          m15 = momentum (lastN pricesOnly (max 3 (min 15 n)));
          m60 = momentum (lastN pricesOnly (max 5 (min 60 n)))
      in Math_max (Fin (- 15))
           (Math_min (Fin 15)
              (Math_round (js_add (js_mul (js_neg m60) (Fin 50)) (js_mul (js_sub m15 m60) (Fin 100))))))"

definition botPenalty :: "TransactionAnalysis \<Rightarrow> jsnum" where
  "botPenalty tx =
     Math_round (js_mul (js_div
       (Math_min (Fin 100)
          (Math_round
            (Math_max (Fin 0)
              (js_add
                (js_add (js_mul (js_div (transactionsPerMinute tx) (Fin 30)) (Fin 50))
                        (if js_lt (averageTransactionSize tx) (Fin 100) then Fin 25 else Fin 0))
                (if detected (mevPatterns tx)
                   then Math_min (MevPatterns.score (mevPatterns tx)) (Fin 25) else Fin 0)))))
       (Fin 100)) (Fin 20))"

section \<open>Arithmetic of JavaScript numbers\<close>

lemma js_add_zero [simp]: "js_add x (Fin 0) = x"
  by (cases x) simp_all

section \<open>Statements run on the object being built\<close>

lemma if_then_keep: "(\<And>s. g (body s) = g s) \<Longrightarrow> g (if_then c body s) = g s"
  by (simp add: if_then_def)

lemma if_then_set: "(\<And>s. g (body s) = True) \<Longrightarrow> g (if_then c body s) = (c \<or> g s)"
  by (simp add: if_then_def)

section \<open>Seller exhaustion\<close>

lemma add_exhaustion_simps [simp]:
  "exhaustionScore (add_exhaustion n s) = js_add (exhaustionScore s) (Fin n)"
  "tightPriceRange (add_exhaustion n s) = tightPriceRange s"
  "sellerDominanceCollapse (add_exhaustion n s) = sellerDominanceCollapse s"
  "mevInactivity (add_exhaustion n s) = mevInactivity s"
  "volatilityCollapse (add_exhaustion n s) = volatilityCollapse s"
  by (simp_all add: add_exhaustion_def)

lemma tight_flag:
  "tightPriceRange (SellerExhaustion_analyze tx ph) = js_lt (calculatePriceVolatility ph) (Fin 0.05)"
  by (simp add: SellerExhaustion_analyze_def Let_def SellerExhaustion_init_def
        if_then_keep [of tightPriceRange] if_then_set [of tightPriceRange] split del: if_split)

lemma collapse_flag:
  "volatilityCollapse (SellerExhaustion_analyze tx ph) = js_lt (calculateVolatilityTrend ph) (Fin (- 0.2))"
  by (simp add: SellerExhaustion_analyze_def Let_def SellerExhaustion_init_def
        if_then_keep [of volatilityCollapse] if_then_set [of volatilityCollapse] split del: if_split)

lemma dominance_flag:
  "sellerDominanceCollapse (SellerExhaustion_analyze tx ph) = js_gt (buySellRatio tx) (Fin 0.6)"
  by (simp add: SellerExhaustion_analyze_def Let_def SellerExhaustion_init_def
        if_then_keep [of sellerDominanceCollapse] if_then_set [of sellerDominanceCollapse] split del: if_split)

lemma mev_flag:
  "mevInactivity (SellerExhaustion_analyze tx ph) =
     (\<not> detected (mevPatterns tx) \<or> js_lt (MevPatterns.score (mevPatterns tx)) (Fin 20))"
  by (simp add: SellerExhaustion_analyze_def Let_def SellerExhaustion_init_def
        if_then_keep [of mevInactivity] if_then_set [of mevInactivity] split del: if_split)

lemma bottom_gate:
  "isBottomSignal (SellerExhaustion_analyze tx ph) \<longleftrightarrow>
     js_ge (exhaustionScore (SellerExhaustion_analyze tx ph)) (Fin 60)
     \<and> tightPriceRange (SellerExhaustion_analyze tx ph)
     \<and> sellerDominanceCollapse (SellerExhaustion_analyze tx ph)
     \<and> mevInactivity (SellerExhaustion_analyze tx ph)"
  by (simp add: SellerExhaustion_analyze_def Let_def)

text \<open>The exhaustion score is the sum of the points of the signals that fired.\<close>

lemma exhaustionScore_sum:
  "exhaustionScore (SellerExhaustion_analyze tx ph) =
     Fin ((if decreasingSellVolume (SellerExhaustion_analyze tx ph) then 20 else 0)
        + (if decreasingSellFrequency (SellerExhaustion_analyze tx ph) then 15 else 0)
        + (if sellerDominanceCollapse (SellerExhaustion_analyze tx ph) then 20 else 0)
        + (if finalLargeSellerExit (SellerExhaustion_analyze tx ph) then 15 else 0)
        + (if mevInactivity (SellerExhaustion_analyze tx ph) then 10 else 0)
        + (if tightPriceRange (SellerExhaustion_analyze tx ph) then 10 else 0)
        + (if volatilityCollapse (SellerExhaustion_analyze tx ph) then 10 else 0))"
  by (simp add: SellerExhaustion_analyze_def Let_def SellerExhaustion_init_def if_then_def add_exhaustion_def)

lemma exhaustionScore_range:
  "\<exists>r. exhaustionScore (SellerExhaustion_analyze tx ph) = Fin r \<and> 0 \<le> r \<and> r \<le> 100"
  unfolding exhaustionScore_sum [of tx ph] by simp

text \<open>
  C8: the bottom signal holds exactly when the exhaustion score is at least 60 and the
  tight-price-range, seller-dominance-collapse and MEV-inactivity signals all hold, each of the
  three signals being its test of the source; the additive exhaustion score never exceeds 100.
\<close>

theorem bottom_signal_gate:
  "(isBottomSignal (SellerExhaustion_analyze tx ph) \<longleftrightarrow>
      js_ge (exhaustionScore (SellerExhaustion_analyze tx ph)) (Fin 60)
      \<and> js_lt (calculatePriceVolatility ph) (Fin 0.05)
      \<and> js_gt (buySellRatio tx) (Fin 0.6)
      \<and> (\<not> detected (mevPatterns tx) \<or> js_lt (MevPatterns.score (mevPatterns tx)) (Fin 20)))
   \<and> tightPriceRange (SellerExhaustion_analyze tx ph) = js_lt (calculatePriceVolatility ph) (Fin 0.05)
   \<and> sellerDominanceCollapse (SellerExhaustion_analyze tx ph) = js_gt (buySellRatio tx) (Fin 0.6)
   \<and> mevInactivity (SellerExhaustion_analyze tx ph)
        = (\<not> detected (mevPatterns tx) \<or> js_lt (MevPatterns.score (mevPatterns tx)) (Fin 20))
   \<and> js_le (exhaustionScore (SellerExhaustion_analyze tx ph)) (Fin 100)"
proof -
  obtain r where r: "exhaustionScore (SellerExhaustion_analyze tx ph) = Fin r" "r \<le> 100"
    using exhaustionScore_range by blast
  show ?thesis
    using r by (simp add: bottom_gate tight_flag dominance_flag mev_flag)
qed

lemma flat_volatility: "calculatePriceVolatility flatPrices = Fin 0"
  by (simp add: calculatePriceVolatility_def flatPrices_def Let_def js_sum_def js_sub_def Math_pow2_def)

lemma flat_trend: "calculateVolatilityTrend flatPrices = Fin 0"
  by (simp add: calculateVolatilityTrend_def flatPrices_def)

lemma recovering_score: "exhaustionScore (SellerExhaustion_analyze recoveringFlow flatPrices) = Fin 90"
  by (simp add: SellerExhaustion_analyze_def Let_def SellerExhaustion_init_def if_then_def
      add_exhaustion_def flat_volatility flat_trend recoveringFlow_def getEmptyAnalysis_def
      estimateSellVolume15m_def js_sub_def js_gt_def)

lemma recoveringFlow_fields:
  "buySellRatio recoveringFlow = Fin 0.8" "detected (mevPatterns recoveringFlow) = False"
  "buySellRatio getEmptyAnalysis = Fin 0.5" "detected (mevPatterns getEmptyAnalysis) = False"
  by (simp_all add: recoveringFlow_def getEmptyAnalysis_def)

theorem bottom_signal_gate_witness:
  "isBottomSignal (SellerExhaustion_analyze recoveringFlow flatPrices)
   \<and> exhaustionScore (SellerExhaustion_analyze recoveringFlow flatPrices) = Fin 90
   \<and> \<not> isBottomSignal (SellerExhaustion_analyze getEmptyAnalysis flatPrices)"
  using bottom_signal_gate [of recoveringFlow flatPrices] bottom_signal_gate [of getEmptyAnalysis flatPrices]
  by (simp add: recovering_score flat_volatility js_ge_def js_gt_def recoveringFlow_fields)

text \<open>
  C10: a price series of fewer than two points has price volatility 1, so the
  tight-price-range and volatility-collapse signals are false and the bottom signal is false,
  whatever the flow statistics.
\<close>

theorem short_series_no_bottom:
  assumes "length ph < 2"
  shows "calculatePriceVolatility ph = Fin 1
       \<and> \<not> tightPriceRange (SellerExhaustion_analyze tx ph)
       \<and> \<not> volatilityCollapse (SellerExhaustion_analyze tx ph)
       \<and> \<not> isBottomSignal (SellerExhaustion_analyze tx ph)"
proof -
  have v: "calculatePriceVolatility ph = Fin 1"
    using assms by (simp add: calculatePriceVolatility_def)
  have t: "calculateVolatilityTrend ph = Fin 0"
    using assms by (simp add: calculateVolatilityTrend_def)
  show ?thesis
    by (simp add: v t tight_flag collapse_flag bottom_gate)
qed

theorem short_series_no_bottom_witness:
  "length ([] :: PricePoint list) < 2
   \<and> calculatePriceVolatility [] = Fin 1
   \<and> \<not> isBottomSignal (SellerExhaustion_analyze recoveringFlow [])
   \<and> exhaustionScore (SellerExhaustion_analyze recoveringFlow []) = Fin 80"
  using short_series_no_bottom [of "[]" recoveringFlow]
  by (simp add: SellerExhaustion_analyze_def Let_def SellerExhaustion_init_def if_then_def
      add_exhaustion_def recoveringFlow_def getEmptyAnalysis_def
      estimateSellVolume15m_def js_sub_def js_gt_def calculateVolatilityTrend_def calculatePriceVolatility_def)

section \<open>Liquidity health\<close>

lemma or_default_not_NaN [simp]: "d \<noteq> NaN \<Longrightarrow> or_default x d \<noteq> NaN"
  by (auto simp: or_default_def truthy_def split: option.splits)

lemma lp_ratio: "lpRatio (LPHealth_analyze tok) =
   (if js_gt (or_default (marketCap tok) (Fin 0)) (Fin 0)
    then js_div (or_default (liquidity tok) (Fin 0)) (or_default (marketCap tok) (Fin 0)) else Fin 0)"
  by (simp add: LPHealth_analyze_def Let_def split: prod.splits)

lemma lp_healthy: "isHealthy (LPHealth_analyze tok) = js_ge (healthScore (LPHealth_analyze tok)) (Fin 60)"
  by (simp add: LPHealth_analyze_def Let_def split: prod.splits)

lemma lp_score:
  "healthScore (LPHealth_analyze tok) =
     Fin (if js_gt (or_default (marketCap tok) (Fin 0)) (Fin 0) \<and> or_default (liquidity tok) (Fin 0) = Fin 0 then 0
          else 100 - spec_liquidity_deduction (or_default (liquidity tok) (Fin 0))
                   - (if js_gt (lpRatio (LPHealth_analyze tok)) (Fin 0)
                      then spec_ratio_deduction (lpRatio (LPHealth_analyze tok)) else 0))"
  unfolding lp_ratio
  by (simp add: LPHealth_analyze_def Let_def spec_liquidity_deduction_def spec_ratio_deduction_def
       js_sub_def js_seq_def Math_max_def Math_min_def split: prod.splits)

lemma lp_range: "\<exists>x. healthScore (LPHealth_analyze tok) = Fin x \<and> 0 \<le> x \<and> x \<le> 100"
  unfolding lp_score [of tok]
  by (simp add: spec_liquidity_deduction_def spec_ratio_deduction_def)


text \<open>
  C6 (amended): the health score is 100 minus the liquidity deduction (40 below $5k, else 20
  below $10k, else 10 below $50k) minus, only when the liquidity/market-cap ratio is positive,
  the ratio deduction (30 below 0.05, else 15 below 0.1, else 10 above 0.5); it is 0 when the
  market cap is positive and liquidity is zero; it lies in [0,100], and the token is healthy
  exactly when the score is at least 60.
\<close>

theorem lp_health_schedule:
  "lpRatio (LPHealth_analyze tok) =
     (if js_gt (or_default (marketCap tok) (Fin 0)) (Fin 0)
      then js_div (or_default (liquidity tok) (Fin 0)) (or_default (marketCap tok) (Fin 0)) else Fin 0)
   \<and> healthScore (LPHealth_analyze tok) =
     Fin (if js_gt (or_default (marketCap tok) (Fin 0)) (Fin 0) \<and> or_default (liquidity tok) (Fin 0) = Fin 0 then 0
          else 100 - spec_liquidity_deduction (or_default (liquidity tok) (Fin 0))
                   - (if js_gt (lpRatio (LPHealth_analyze tok)) (Fin 0)
                      then spec_ratio_deduction (lpRatio (LPHealth_analyze tok)) else 0))
   \<and> js_le (Fin 0) (healthScore (LPHealth_analyze tok))
   \<and> js_le (healthScore (LPHealth_analyze tok)) (Fin 100)
   \<and> isHealthy (LPHealth_analyze tok) = js_ge (healthScore (LPHealth_analyze tok)) (Fin 60)"
proof -
  obtain x where x: "healthScore (LPHealth_analyze tok) = Fin x" "0 \<le> x" "x \<le> 100"
    using lp_range by blast
  have "js_le (Fin 0) (healthScore (LPHealth_analyze tok))"
    and "js_le (healthScore (LPHealth_analyze tok)) (Fin 100)"
    using x by simp_all
  then show ?thesis
    using lp_ratio [of tok] lp_score [of tok] lp_healthy [of tok] by blast
qed

lemma tokenOf_fields [simp]: "liquidity (tokenOf l m) = l" "marketCap (tokenOf l m) = m"
  by (simp_all add: tokenOf_def)

theorem lp_health_schedule_witness:
  "healthScore (LPHealth_analyze (tokenOf (Some (Fin 4000)) (Some (Fin 100000)))) = Fin 30
   \<and> \<not> isHealthy (LPHealth_analyze (tokenOf (Some (Fin 4000)) (Some (Fin 100000))))
   \<and> healthScore (LPHealth_analyze (tokenOf (Some (Fin 0)) (Some (Fin 100000)))) = Fin 0
   \<and> healthScore (LPHealth_analyze (tokenOf None None)) = Fin 60
   \<and> isHealthy (LPHealth_analyze (tokenOf None None))"
  using lp_health_schedule [of "tokenOf (Some (Fin 4000)) (Some (Fin 100000))"]
    lp_health_schedule [of "tokenOf (Some (Fin 0)) (Some (Fin 100000))"]
    lp_health_schedule [of "tokenOf None None"]
  by (simp add: or_default_def truthy_def js_gt_def js_ge_def spec_liquidity_deduction_def
       spec_ratio_deduction_def)

text \<open>
  C6 as stated fails for a token with $100k liquidity and no market cap: the score is 100,
  while the schedule of the specification gives 70 on the reported ratio 0 and 90 on the
  quotient \<open>100000 / 0\<close>.
\<close>

theorem lp_health_counterexample:
  "healthScore (LPHealth_analyze (tokenOf (Some (Fin 100000)) None)) = Fin 100
   \<and> spec_lp_score (Fin 100000) (Fin 0) (lpRatio (LPHealth_analyze (tokenOf (Some (Fin 100000)) None))) = 70
   \<and> spec_lp_score (Fin 100000) (Fin 0) (js_div (Fin 100000) (Fin 0)) = 90"
  by (simp add: lp_score lp_ratio or_default_def truthy_def js_gt_def js_seq_def spec_lp_score_def
       spec_liquidity_deduction_def spec_ratio_deduction_def inf_times_def)

section \<open>Wallet classification\<close>

lemma classify_category:
  "category (classifyWallet h) =
    (if isSniper h then Sniper
     else if jeeterRule h then Jeeter
     else if isMEVBot h then MevBot
     else if js_gt (percentage h) (Fin 5) then Whale
     else if isStrongHands h then StrongHands
     else if isWeakHands h then WeakHands
     else Unknown)"
  by (simp add: classifyWallet_def)

lemma sniper_rule:
  "HolderInfo.averageHoldTime h = Some (Fin a) \<Longrightarrow> a < 5 \<Longrightarrow>
   HolderInfo.transactionCount h = Some (Fin n) \<Longrightarrow> 10 < n \<Longrightarrow> isSniper h"
  by (simp add: isSniper_def defined_and_def truthy_and_def truthy_def js_gt_def)

text \<open>
  C4: \<open>classifyWallet\<close> tries its rules in the order sniper, jeeter, MEV bot, whale, strong
  hands, weak hands, unknown, and the first rule that matches decides; a holder with an
  average hold time below 5 minutes and more than 10 transactions is classified sniper.
\<close>

theorem classifyWallet_precedence:
  "category (classifyWallet h) =
    (if isSniper h then Sniper
     else if jeeterRule h then Jeeter
     else if isMEVBot h then MevBot
     else if js_gt (percentage h) (Fin 5) then Whale
     else if isStrongHands h then StrongHands
     else if isWeakHands h then WeakHands
     else Unknown)
   \<and> (\<forall>a n. HolderInfo.averageHoldTime h = Some (Fin a) \<and> a < 5
          \<and> HolderInfo.transactionCount h = Some (Fin n) \<and> 10 < n
        \<longrightarrow> classifyWallet h = \<lparr> category = Sniper, score = Fin 20, confidence = Fin 70,
                                 reasons = [Text ''Sniper pattern detected''] \<rparr>)"
  using sniper_rule [of h] by (auto simp: classifyWallet_def)

theorem classifyWallet_precedence_witness:
  "category (classifyWallet (holderOf (Fin 1) (Some (Fin 3)) (Some (Fin 15)))) = Sniper
   \<and> category (classifyWallet (holderOf (Fin 8) (Some (Fin 3)) (Some (Fin 15)))) = Sniper
   \<and> category (classifyWallet (holderOf (Fin 8) (Some (Fin 3)) (Some (Fin 5)))) = Whale
   \<and> category (classifyWallet (holderOf (Fin 1) (Some (Fin 90)) (Some (Fin 5)))) = StrongHands
   \<and> category (classifyWallet (holderOf (Fin 1) None None)) = Unknown"
  using classifyWallet_precedence [of "holderOf (Fin 1) (Some (Fin 3)) (Some (Fin 15))"]
    classifyWallet_precedence [of "holderOf (Fin 8) (Some (Fin 3)) (Some (Fin 15))"]
    classifyWallet_precedence [of "holderOf (Fin 8) (Some (Fin 3)) (Some (Fin 5))"]
    classifyWallet_precedence [of "holderOf (Fin 1) (Some (Fin 90)) (Some (Fin 5))"]
    classifyWallet_precedence [of "holderOf (Fin 1) None None"]
  by (simp add: holderOf_def isSniper_def jeeterRule_def isMEVBot_def isStrongHands_def isWeakHands_def
       defined_and_def truthy_and_def truthy_def js_gt_def)

section \<open>Wallet quality of a holder set\<close>

lemma get_count_update: "get_count (AList.update k v d) c = (if c = k then v else get_count d c)"
  by (simp add: get_count_def update_conv')

lemma get_count_init: "get_count (map (\<lambda>cat. (cat, 0)) categories) c = 0"
  by (cases c) (simp_all add: get_count_def categories_def)

lemma fold_classify_counts:
  "get_count (snd (fold classify_step hs maps)) c = get_count (snd maps) c + count_category c hs"
proof (induction hs arbitrary: maps)
  case Nil
  show ?case by (simp add: count_category_def)
next
  case (Cons h hs)
  have "get_count (snd (classify_step h maps)) c
          = get_count (snd maps) c + (if category (classifyWallet h) = c then 1 else 0)"
    by (auto simp: classify_step_def Let_def get_count_update)
  then show ?case
    using Cons.IH [of "classify_step h maps"] by (simp add: count_category_def)
qed

lemma classify_all_counts: "get_count (snd (classify_all hs)) c = count_category c hs"
  by (simp add: classify_all_def fold_classify_counts get_count_init)

lemma clamp_Fin: "Math_max (Fin 0) (Math_min (Fin 100) (Fin x)) = Fin (max 0 (min 100 x))"
  by (simp add: Math_max_def Math_min_def max_def min_def)

lemma overall_nonempty:
  assumes "hs \<noteq> []"
  shows "overallQualityScore (WalletQuality_analyze hs) =
     Fin (max 0 (min 100
       (real (count_category StrongHands hs + count_category Whale hs) / real (length hs) * 100
        - real (count_category Jeeter hs) / real (length hs) * 50
        - real (count_category Sniper hs) / real (length hs) * 30)))"
proof -
  obtain scores distribution where cl: "classify_all hs = (scores, distribution)"
    by (cases "classify_all hs")
  have d: "get_count distribution c = count_category c hs" for c
    using classify_all_counts [of hs c] cl by simp
  show ?thesis
    using assms by (simp add: WalletQuality_analyze_def cl Let_def d js_sub_def clamp_Fin)
qed

lemma overall_empty: "overallQualityScore (WalletQuality_analyze []) = Fin 0"
  by (simp add: WalletQuality_analyze_def split: prod.splits)

text \<open>
  C7: the empty holder list has overall quality score exactly 0, and a non-empty list has
  100 times the fraction of strong hands and whales, minus 50 times the jeeter fraction,
  minus 30 times the sniper fraction, clamped to [0,100].
\<close>

theorem overall_quality_score:
  "overallQualityScore (WalletQuality_analyze []) = Fin 0
   \<and> (hs \<noteq> [] \<longrightarrow>
        overallQualityScore (WalletQuality_analyze hs) =
          Fin (max 0 (min 100
            (real (count_category StrongHands hs + count_category Whale hs) / real (length hs) * 100
             - real (count_category Jeeter hs) / real (length hs) * 50
             - real (count_category Sniper hs) / real (length hs) * 30))))"
  using overall_empty overall_nonempty by blast

lemma holderOf_category:
  "category (classifyWallet (holderOf (Fin 1) (Some (Fin 3)) (Some (Fin 15)))) = Sniper"
  "category (classifyWallet (holderOf (Fin 8) (Some (Fin 3)) (Some (Fin 5)))) = Whale"
  "category (classifyWallet (holderOf (Fin 1) (Some (Fin 90)) (Some (Fin 5)))) = StrongHands"
  "category (classifyWallet (holderOf (Fin 1) None None)) = Unknown"
  by (simp_all add: classify_category holderOf_def isSniper_def jeeterRule_def isMEVBot_def
       isStrongHands_def isWeakHands_def defined_and_def truthy_and_def truthy_def js_gt_def)

theorem overall_quality_score_witness:
  "fourHolders \<noteq> [] \<and> overallQualityScore (WalletQuality_analyze fourHolders) = Fin 42.5
   \<and> overallQualityScore (WalletQuality_analyze []) = Fin 0"
  using overall_quality_score [of fourHolders]
  by (simp add: fourHolders_def count_category_def holderOf_category)

section \<open>Danger zone\<close>

lemma add_risk_simps [simp]:
  "riskScore (add_risk n f) = js_add (riskScore f) (Fin n)"
  "lpTooThin (add_risk n f) = lpTooThin f"
  by (simp_all add: add_risk_def)

lemma risk_step:
  "(\<And>g. riskScore (upd g) = riskScore g) \<Longrightarrow>
   riskScore (if_then c (\<lambda>f. add_risk n (upd f)) f) = js_add (riskScore f) (Fin (if c then n else 0))"
  by (simp add: if_then_def)

lemma risk_step_plain:
  "riskScore (if_then c (add_risk n) f) = js_add (riskScore f) (Fin (if c then n else 0))"
  by (simp add: if_then_def)

lemma risk_sum:
  "riskScore (JeeterZone_detect tx wq tok) =
     Fin (other_risk tx wq
          + (if truthy_and (liquidity tok) (\<lambda>l. js_lt l (Fin 10000)) then 15 else 0)
          + (if truthy_and (liquidity tok) (\<lambda>l. js_lt l (Fin 5000)) then 20 else 0))"
  by (simp add: JeeterZone_detect_def Let_def JeeterZone_init_def risk_step risk_step_plain other_risk_def
       split del: if_split)


lemma zone_flag:
  "isJeeterZone (JeeterZone_detect tx wq tok) = js_ge (riskScore (JeeterZone_detect tx wq tok)) (Fin 50)"
  by (simp add: JeeterZone_detect_def Let_def)




lemma analyze_empty:
  "WalletQuality_analyze [] =
     \<lparr> walletScores = [], categoryDistribution = map (\<lambda>cat. (cat, 0)) categories,
       averageHoldTime = Fin 0, averageSellBuyRatio = Fin 0, highQualityWalletCount = 0,
       jeeterDominance = False, sniperDominance = False, overallQualityScore = Fin 0 \<rparr>"
  by (simp add: WalletQuality_analyze_def classify_all_def)

lemma empty_other_risk: "other_risk getEmptyAnalysis (WalletQuality_analyze []) = 50"
  by (simp add: other_risk_def analyze_empty getEmptyAnalysis_def categories_def get_count_def
       js_sub_def js_gt_def inf_times_def)



section \<open>Outcome predictor\<close>

lemma round_clamp_commute:
  "Math_max (Fin 0) (Math_min (Fin 100) (Math_round x)) = Math_round (Math_max (Fin 0) (Math_min (Fin 100) x))"
proof (cases x)
  case (Fin a)
  define k where "k = \<lfloor>a + 1 / 2\<rfloor>"
  consider "a < 0" | "0 \<le> a \<and> a \<le> 100" | "100 < a"
    by linarith
  then show ?thesis
  proof cases
    case 1
    then have "k \<le> 0" unfolding k_def by (simp add: floor_le_iff)
    then have "real_of_int k \<le> 0" by simp
    then show ?thesis
      using 1 Fin by (simp add: Math_max_def Math_min_def k_def [symmetric])
  next
    case 2
    then have "0 \<le> k" "k \<le> 100" unfolding k_def by (simp_all add: le_floor_iff floor_le_iff)
    moreover have "k = 0" if "a = 0" using that by (simp add: k_def)
    moreover have "k = 100" if "a = 100" using that by (simp add: k_def)
    ultimately show ?thesis
      using 2 Fin by (auto simp: Math_max_def Math_min_def k_def [symmetric])
  next
    case 3
    then have "100 \<le> k" unfolding k_def by (simp add: le_floor_iff)
    then have "100 \<le> real_of_int k" by simp
    then show ?thesis
      using 3 Fin by (simp add: Math_max_def Math_min_def k_def [symmetric])
  qed
qed (simp_all add: Math_max_def Math_min_def)

lemma combined_score:
  "combinedScore (predictOutcome p m s) =
     (let raw = combinedScoreRaw (nan_to (Fin 0) (microScore m)) (nan_to (Fin 0) (structuralScore s))
                  (nan_to (Fin 0) (volatilityTrendPct m))
      in if isNaN raw then Fin 0 else Math_max (Fin 0) (Math_min (Fin 100) (Math_round raw)))"
  by (simp add: predictOutcome_def Let_def split: prod.splits)


lemma raw_NaN_iff:
  assumes "a \<noteq> NaN" "b \<noteq> NaN" "c \<noteq> NaN"
  shows "combinedScoreRaw a b c = NaN \<longleftrightarrow> (a = PInf \<and> b = NInf) \<or> (a = NInf \<and> b = PInf)"
proof -
  have "\<exists>t. js_mul (Math_max (Fin 0) (js_mul (js_sub (Fin 1) (Math_abs c)) (Fin 100))) (Fin weight_volatility) = Fin t"
    using assms(3) by (cases c) (auto simp: js_sub_def inf_times_def Math_max_def)
  then obtain t where t: "js_mul (Math_max (Fin 0) (js_mul (js_sub (Fin 1) (Math_abs c)) (Fin 100))) (Fin weight_volatility) = Fin t"
    by blast
  show ?thesis
    using assms(1,2) unfolding combinedScoreRaw_def t
    by (cases a; cases b) (simp_all add: inf_times_def weight_microstructure_def weight_structural_def)
qed

lemma nan_to_not_NaN [simp]: "d \<noteq> NaN \<Longrightarrow> nan_to d x \<noteq> NaN"
  by (simp add: nan_to_def isNaN_def)

lemma nan_to_Inf [simp]:
  "nan_to (Fin d) x = PInf \<longleftrightarrow> x = PInf" "nan_to (Fin d) x = NInf \<longleftrightarrow> x = NInf"
  by (auto simp: nan_to_def isNaN_def)

lemma spec_weighted_sum_eq: "spec_weighted_sum a b c = combinedScoreRaw a b c"
proof -
  have "js_mul (Math_max (Fin 0) (js_sub (Fin 1) (Math_abs c))) (Fin 100)
          = Math_max (Fin 0) (js_mul (js_sub (Fin 1) (Math_abs c)) (Fin 100))"
    by (cases c) (auto simp: js_sub_def Math_max_def inf_times_def)
  then show ?thesis
    by (simp add: spec_weighted_sum_def combinedScoreRaw_def weight_microstructure_def
         weight_structural_def weight_volatility_def)
qed

lemma combined_score_cases:
  "combinedScore (predictOutcome p m s) =
     (if (microScore m = PInf \<and> structuralScore s = NInf) \<or> (microScore m = NInf \<and> structuralScore s = PInf)
      then Fin 0
      else spec_combinedScore (microScore m) (structuralScore s) (volatilityTrendPct m))"
  by (simp add: combined_score Let_def isNaN_def raw_NaN_iff spec_combinedScore_def spec_clamp_def
       spec_weighted_sum_eq round_clamp_commute)

lemma quietMicro_fields [simp]:
  "volatilityTrendPct quietMicro = Fin 0" "microScore quietMicro = Fin 55"
  by (simp_all add: quietMicro_def)

lemma final_range:
  "\<exists>r. (if isNaN x then Fin 0 else Math_max (Fin 0) (Math_min (Fin 100) x)) = Fin r \<and> 0 \<le> r \<and> r \<le> 100"
  by (cases x) (auto simp: Math_max_def Math_min_def isNaN_def)

lemma Math_round_NaN [simp]: "Math_round x = NaN \<longleftrightarrow> x = NaN"
  by (cases x) simp_all

lemma final_round_range:
  "\<exists>r. (if isNaN x then Fin 0 else Math_max (Fin 0) (Math_min (Fin 100) (Math_round x))) = Fin r
        \<and> 0 \<le> r \<and> r \<le> 100"
  using final_range [of "Math_round x"] by (simp add: isNaN_def)

lemma combined_range: "\<exists>r. combinedScore (predictOutcome p m s) = Fin r \<and> 0 \<le> r \<and> r \<le> 100"
  unfolding combined_score Let_def by (rule final_round_range)

lemma flags_of_outcome:
  "isDipOpportunity (predictOutcome p m s) =
     (\<not> isJeeterZone (jeeterFlags s) \<and> js_ge (nan_to (Fin 0) (microScore m)) (Fin 60)
      \<and> js_ge (nan_to (Fin 0) (structuralScore s)) (Fin 55))"
  "isDipTrap (predictOutcome p m s) =
     (isJeeterZone (jeeterFlags s) \<or> (\<not> js_ge (nan_to (Fin 0) (microScore m)) (Fin 60)
      \<and> \<not> js_ge (nan_to (Fin 0) (structuralScore s)) (Fin 55)))"
  by (auto simp: predictOutcome_def Let_def split: prod.splits if_splits)

lemma decision_of_outcome:
  "last (debug (predictOutcome p m s)) =
     DebugText (if isJeeterZone (jeeterFlags s) then ''Decision: Jeeter zone => Trap''
       else if js_ge (nan_to (Fin 0) (microScore m)) (Fin 60) \<and> js_ge (nan_to (Fin 0) (structuralScore s)) (Fin 55)
         then ''Decision: microGood & structuralGood => Opportunity''
       else if \<not> js_ge (nan_to (Fin 0) (microScore m)) (Fin 60) \<and> \<not> js_ge (nan_to (Fin 0) (structuralScore s)) (Fin 55)
         then ''Decision: microPoor & structuralPoor => Trap''
       else ''Decision: Mixed signals => Wait/Cautious'')"
  by (auto simp: predictOutcome_def Let_def split: prod.splits if_splits)

lemma confidence_of_outcome:
  "dipConfidence (predictOutcome p m s) =
     (let c = combinedScore (predictOutcome p m s);
          conf = (if isJeeterZone (jeeterFlags s) then Math_max c (nan_to (Fin 50) (riskScore (jeeterFlags s)))
                  else if js_ge (nan_to (Fin 0) (microScore m)) (Fin 60) \<and> js_ge (nan_to (Fin 0) (structuralScore s)) (Fin 55)
                    then Math_max c (Fin 60)
                  else if \<not> js_ge (nan_to (Fin 0) (microScore m)) (Fin 60) \<and> \<not> js_ge (nan_to (Fin 0) (structuralScore s)) (Fin 55)
                    then Math_max c (Fin 55)
                  else Math_round (js_mul c (Fin 0.7)))
      in if isNaN conf then Fin 0 else Math_max (Fin 0) (Math_min (Fin 100) (Math_round conf)))"
  by (auto simp: predictOutcome_def Let_def split: prod.splits if_splits)

lemma depth_of_outcome:
  "\<exists>d. expectedDipDepthPct (predictOutcome p m s) =
     (if isNaN d then Fin 0 else Math_max (Fin 0) (Math_min (Fin 100) d))"
  by (simp add: predictOutcome_def Let_def split: prod.splits) blast


text \<open>
  C2: \<open>predictOutcome\<close> never sets both the opportunity and the trap flag, and both are
  false exactly when the decision taken is the mixed-signals (wait) branch; the opportunity
  flag and the trap flag are each set exactly by their own branches.
\<close>

theorem one_terminal_state:
  "\<not> (isDipOpportunity (predictOutcome p m s) \<and> isDipTrap (predictOutcome p m s))
   \<and> ((\<not> isDipOpportunity (predictOutcome p m s) \<and> \<not> isDipTrap (predictOutcome p m s))
        = (last (debug (predictOutcome p m s)) = DebugText ''Decision: Mixed signals => Wait/Cautious''))
   \<and> (isDipOpportunity (predictOutcome p m s)
        = (last (debug (predictOutcome p m s)) = DebugText ''Decision: microGood & structuralGood => Opportunity''))
   \<and> (isDipTrap (predictOutcome p m s)
        = (last (debug (predictOutcome p m s)) = DebugText ''Decision: Jeeter zone => Trap''
           \<or> last (debug (predictOutcome p m s)) = DebugText ''Decision: microPoor & structuralPoor => Trap''))"
  by (simp add: flags_of_outcome decision_of_outcome)

lemma calm_fields [simp]:
  "isJeeterZone (jeeterFlags calmStructural) = False" "structuralScore calmStructural = Fin 70"
  by (simp_all add: calmStructural_def JeeterZone_init_def)

theorem one_terminal_state_witness:
  "isDipOpportunity (predictOutcome (Fin 2) (quietMicro\<lparr>microScore := Fin 65\<rparr>) calmStructural)
   \<and> \<not> isDipTrap (predictOutcome (Fin 2) (quietMicro\<lparr>microScore := Fin 65\<rparr>) calmStructural)
   \<and> isDipTrap (predictOutcome (Fin 2) quietMicro (calmStructural\<lparr>structuralScore := Fin 40\<rparr>))
   \<and> \<not> isDipOpportunity (predictOutcome (Fin 2) quietMicro (calmStructural\<lparr>structuralScore := Fin 40\<rparr>))
   \<and> \<not> isDipOpportunity (predictOutcome (Fin 2) quietMicro calmStructural)
   \<and> \<not> isDipTrap (predictOutcome (Fin 2) quietMicro calmStructural)
   \<and> last (debug (predictOutcome (Fin 2) quietMicro calmStructural))
       = DebugText ''Decision: Mixed signals => Wait/Cautious''"
  using one_terminal_state [of "Fin 2" "quietMicro\<lparr>microScore := Fin 65\<rparr>" calmStructural]
    one_terminal_state [of "Fin 2" quietMicro "calmStructural\<lparr>structuralScore := Fin 40\<rparr>"]
    one_terminal_state [of "Fin 2" quietMicro calmStructural]
  by (simp add: decision_of_outcome nan_to_def isNaN_def js_ge_def)






lemma withRisk_fields [simp]:
  "isJeeterZone (jeeterFlags (withRisk r s)) = isJeeterZone (jeeterFlags s)"
  "riskScore (jeeterFlags (withRisk r s)) = r"
  "structuralScore (withRisk r s) = structuralScore s"
  by (simp_all add: withRisk_def)




lemma danger_fields [simp]:
  "isJeeterZone (jeeterFlags dangerStructural) = True" "structuralScore dangerStructural = Fin 70"
  "riskScore (jeeterFlags dangerStructural) = Fin 60"
  by (simp_all add: dangerStructural_def calmStructural_def)



section \<open>Score ranges and the orchestrator\<close>

lemma clamp_round_cases:
  "Math_max (Fin 0) (Math_min (Fin 100) (Math_round x)) = NaN
   \<or> score_range (Math_max (Fin 0) (Math_min (Fin 100) (Math_round x)))"
  using final_round_range [of x] by (auto simp: isNaN_def score_range_def Math_max_def Math_min_def)

lemma volatility_branch:
  "(if c1 then (js_add m (Fin 15), r1) else if c2 then (js_add m (Fin 10), r2) else (js_sub m (Fin 10), r3))
     = (x1, x2) \<Longrightarrow> \<exists>v. x1 = js_add m (Fin v)"
  by (auto simp: js_sub_def split: if_splits)

lemma clamp_zero: "Math_max (Fin (- 10)) (Math_min (Fin 10) (Fin 0)) = Fin 0"
  by (simp add: Math_max_def Math_min_def)

lemma micro_score_sum:
  "\<exists>v. microScore (computeMicrostructureSignals ph tx t) =
     Math_max (Fin 0) (Math_min (Fin 100) (Math_round
       (js_add (js_sub (js_add (js_add (js_add (Fin 50) (flowEffect tx)) (momentumEffect ph)) (Fin v))
                       (botPenalty tx))
               (Fin 0))))"
  unfolding computeMicrostructureSignals_def Let_def flowEffect_def momentumEffect_def botPenalty_def
  apply (simp split: prod.splits split del: if_split)
  apply (intro allI impI)
  apply (elim exE)
  apply (drule volatility_branch)
  apply (elim exE)
  subgoal for x1 x2 v
    by (rule exI [of _ v]) (simp add: clamp_zero split del: if_split)
  done

lemma micro_score_range:
  "microScore (computeMicrostructureSignals ph tx t) = NaN
   \<or> score_range (microScore (computeMicrostructureSignals ph tx t))"
proof -
  obtain v where v: "microScore (computeMicrostructureSignals ph tx t) =
     Math_max (Fin 0) (Math_min (Fin 100) (Math_round
       (js_add (js_sub (js_add (js_add (js_add (Fin 50) (flowEffect tx)) (momentumEffect ph)) (Fin v))
                       (botPenalty tx))
               (Fin 0))))"
    using micro_score_sum by blast
  show ?thesis
    unfolding v by (rule clamp_round_cases)
qed

lemma Fin_cases: "isFinite x \<Longrightarrow> \<exists>r. x = Fin r"
  by (cases x) (simp_all add: isFinite_def)

lemma clamp_Fin_gen: "\<exists>r. Math_max (Fin lo) (Math_min (Fin hi) (Fin x)) = Fin r"
  by (simp add: Math_max_def Math_min_def)

lemma flowEffect_Fin:
  assumes "isFinite (buySellRatio15m tx)" "isFinite (buySellRatio1h tx)"
  shows "\<exists>r. flowEffect tx = Fin r"
proof -
  obtain a b where "buySellRatio15m tx = Fin a" "buySellRatio1h tx = Fin b"
    using assms Fin_cases by blast
  then show ?thesis
    by (simp add: flowEffect_def js_sub_def clamp_Fin_gen)
qed

lemma momentum_Fin:
  assumes "\<forall>x \<in> set samples. isFinite x"
  shows "\<exists>r. momentum samples = Fin r"
proof (cases "length samples < 2")
  case True
  then show ?thesis by (simp add: momentum_def)
next
  case False
  then have ne: "samples \<noteq> []" by auto
  then obtain a b where ab: "last samples = Fin a" "hd samples = Fin b"
    using assms Fin_cases by (metis hd_in_set last_in_set)
  show ?thesis
    using False ab by (simp add: momentum_def Let_def js_seq_def js_sub_def clamp_Fin_gen)
qed

lemma lastN_subset: "set (lastN xs n) \<subseteq> set xs"
  by (auto simp: lastN_def slice_from_def dest: in_set_dropD)

lemma momentumEffect_Fin:
  assumes "\<forall>p \<in> set ph. isFinite (PricePoint.price p)"
  shows "\<exists>r. momentumEffect ph = Fin r"
proof -
  have fin: "\<forall>x \<in> set (lastN (map PricePoint.price ph) n). isFinite x" for n
    using assms lastN_subset [of "map PricePoint.price ph" n] by auto
  obtain a where a: "momentum (lastN (map PricePoint.price ph) (max 3 (min 15 (length ph)))) = Fin a"
    using momentum_Fin [OF fin] by blast
  obtain b where b: "momentum (lastN (map PricePoint.price ph) (max 5 (min 60 (length ph)))) = Fin b"
    using momentum_Fin [OF fin] by blast
  show ?thesis
    by (simp add: momentumEffect_def Let_def a b js_sub_def clamp_Fin_gen)
qed

lemma botPenalty_Fin:
  assumes "isFinite (transactionsPerMinute tx)" "isFinite (MevPatterns.score (mevPatterns tx))"
  shows "\<exists>r. botPenalty tx = Fin r"
proof -
  obtain a b where ab: "transactionsPerMinute tx = Fin a" "MevPatterns.score (mevPatterns tx) = Fin b"
    using assms Fin_cases by blast
  show ?thesis
    by (simp add: botPenalty_def ab Math_max_def Math_min_def)
qed

lemma micro_score_finite:
  assumes "\<forall>p \<in> set ph. isFinite (PricePoint.price p)"
    and "isFinite (buySellRatio15m tx)" "isFinite (buySellRatio1h tx)"
    and "isFinite (transactionsPerMinute tx)" "isFinite (MevPatterns.score (mevPatterns tx))"
  shows "score_range (microScore (computeMicrostructureSignals ph tx t))"
proof -
  obtain v where v: "microScore (computeMicrostructureSignals ph tx t) =
     Math_max (Fin 0) (Math_min (Fin 100) (Math_round
       (js_add (js_sub (js_add (js_add (js_add (Fin 50) (flowEffect tx)) (momentumEffect ph)) (Fin v))
                       (botPenalty tx))
               (Fin 0))))"
    using micro_score_sum by blast
  obtain a where a: "flowEffect tx = Fin a"
    using flowEffect_Fin assms(2,3) by blast
  obtain b where b: "momentumEffect ph = Fin b"
    using momentumEffect_Fin assms(1) by blast
  obtain c where c: "botPenalty tx = Fin c"
    using botPenalty_Fin assms(4,5) by blast
  have "microScore (computeMicrostructureSignals ph tx t) =
     Math_max (Fin 0) (Math_min (Fin 100) (Math_round (Fin (50 + a + b + v - c))))"
    unfolding v a b c by (simp add: js_sub_def)
  then show ?thesis
    using clamp_round_cases [of "Fin (50 + a + b + v - c)"] by (auto simp: Math_max_def Math_min_def)
qed

lemma overall_Fin: "\<exists>x. overallQualityScore (WalletQuality_analyze hs) = Fin x"
  using overall_empty overall_nonempty [of hs] by (cases hs) auto

lemma structural_score_range: "score_range (structuralScore (computeStructuralSignals hs tx tok ph))"
proof -
  obtain w where w: "overallQualityScore (WalletQuality_analyze hs) = Fin w"
    using overall_Fin by blast
  obtain l where l: "healthScore (LPHealth_analyze tok) = Fin l"
    using lp_range by blast
  obtain e where e: "exhaustionScore (SellerExhaustion_analyze tx ph) = Fin e"
    using exhaustionScore_range by blast
  obtain j where j: "riskScore (JeeterZone_detect tx (WalletQuality_analyze hs) tok) = Fin j"
    using risk_sum by blast
  have "structuralScore (computeStructuralSignals hs tx tok ph) =
          Math_max (Fin 0) (Math_min (Fin 100) (Math_round (Fin (50 + w * 0.3 + l * 0.3 + e * 0.25 - j * 0.4))))"
    by (simp add: computeStructuralSignals_def Let_def w l e j nan_to_def isNaN_def js_sub_def)
  then show ?thesis
    using clamp_round_cases [of "Fin (50 + w * 0.3 + l * 0.3 + e * 0.25 - j * 0.4)"]
    by (auto simp: Math_max_def Math_min_def)
qed

text \<open>
  C3: the combined score returned by \<open>predictOutcome\<close> is
  \<open>round(clamp(microScore * 0.45 + structuralScore * 0.45
  + max(0, 1 - |volatilityTrend|) * 100 * 0.10, 0, 100))\<close>, a \<open>NaN\<close> among the three inputs being
  replaced by 0 before the weighted sum. This holds whenever the micro score or the structural
  score is not an infinity, so for all scores in their documented range [0,100], and for every
  structural score that \<open>computeStructuralSignals\<close> produces.
\<close>

theorem combined_score_formula:
  "(\<not> isInfinite (microScore m) \<or> \<not> isInfinite (structuralScore s) \<longrightarrow>
      combinedScore (predictOutcome p m s)
        = spec_combinedScore (microScore m) (structuralScore s) (volatilityTrendPct m))
   \<and> combinedScore (predictOutcome p m (computeStructuralSignals hs tx tok ph))
        = spec_combinedScore (microScore m) (structuralScore (computeStructuralSignals hs tx tok ph))
            (volatilityTrendPct m)"
proof -
  have general: "combinedScore (predictOutcome p m s')
        = spec_combinedScore (microScore m) (structuralScore s') (volatilityTrendPct m)"
    if "\<not> isInfinite (microScore m) \<or> \<not> isInfinite (structuralScore s')" for s'
    using that by (auto simp: combined_score_cases isInfinite_def)
  have "\<not> isInfinite (structuralScore (computeStructuralSignals hs tx tok ph))"
    using structural_score_range [of hs tx tok ph]
    by (auto simp: isInfinite_def score_range_def)
  then show ?thesis
    using general by blast
qed

theorem combined_score_formula_witness:
  "\<not> isInfinite (structuralScore (emptyStructural\<lparr>structuralScore := Fin 70\<rparr>))
   \<and> combinedScore (predictOutcome (Fin 2) quietMicro (emptyStructural\<lparr>structuralScore := Fin 70\<rparr>)) = Fin 66
   \<and> combinedScore (predictOutcome (Fin 2) (quietMicro\<lparr>microScore := NaN\<rparr>)
         (emptyStructural\<lparr>structuralScore := Fin 70\<rparr>)) = Fin 42
   \<and> combinedScore (predictOutcome (Fin 2) (quietMicro\<lparr>microScore := PInf\<rparr>)
         (emptyStructural\<lparr>structuralScore := Fin 70\<rparr>)) = Fin 100"
  using combined_score_formula [of quietMicro "emptyStructural\<lparr>structuralScore := Fin 70\<rparr>" "Fin 2"]
    combined_score_formula [of "quietMicro\<lparr>microScore := NaN\<rparr>" "emptyStructural\<lparr>structuralScore := Fin 70\<rparr>" "Fin 2"]
    combined_score_formula [of "quietMicro\<lparr>microScore := PInf\<rparr>" "emptyStructural\<lparr>structuralScore := Fin 70\<rparr>" "Fin 2"]
  by (simp add: spec_combinedScore_def spec_clamp_def spec_weighted_sum_def nan_to_def isNaN_def
       isInfinite_def js_sub_def Math_max_def Math_min_def inf_times_def)

lemma outcome_ranges:
  "score_range (combinedScore (predictOutcome p m s))"
  "score_range (dipConfidence (predictOutcome p m s))"
  "score_range (expectedDipDepthPct (predictOutcome p m s))"
proof -
  show "score_range (combinedScore (predictOutcome p m s))"
    using combined_range [of p m s] by (auto simp: score_range_def)
  have "\<exists>c. dipConfidence (predictOutcome p m s) =
      (if isNaN c then Fin 0 else Math_max (Fin 0) (Math_min (Fin 100) (Math_round c)))"
    unfolding confidence_of_outcome Let_def by (rule exI) (rule refl)
  then obtain c where "dipConfidence (predictOutcome p m s) =
      (if isNaN c then Fin 0 else Math_max (Fin 0) (Math_min (Fin 100) (Math_round c)))"
    by blast
  then show "score_range (dipConfidence (predictOutcome p m s))"
    using final_round_range [of c] by (auto simp: score_range_def)
  obtain d where "expectedDipDepthPct (predictOutcome p m s) =
      (if isNaN d then Fin 0 else Math_max (Fin 0) (Math_min (Fin 100) d))"
    using depth_of_outcome by blast
  then show "score_range (expectedDipDepthPct (predictOutcome p m s))"
    using final_range [of d] by (auto simp: score_range_def)
qed

lemma classify_ranges:
  "score_range (WalletQualityScore.score (classifyWallet h))"
  "score_range (confidence (classifyWallet h))"
  by (simp_all add: classifyWallet_def score_range_def)

lemma component_ranges:
  "score_range (overallQualityScore (WalletQuality_analyze hs))"
  "score_range (healthScore (LPHealth_analyze tok))"
  "score_range (exhaustionScore (SellerExhaustion_analyze tx ph))"
proof -
  show "score_range (overallQualityScore (WalletQuality_analyze hs))"
    using overall_empty overall_nonempty [of hs] by (cases hs) (auto simp: score_range_def)
  show "score_range (healthScore (LPHealth_analyze tok))"
    using lp_range [of tok] by (auto simp: score_range_def)
  show "score_range (exhaustionScore (SellerExhaustion_analyze tx ph))"
    using exhaustionScore_range [of tx ph] by (auto simp: score_range_def)
qed

text \<open>
  What holds of the orchestrator and the layers: for every non-empty price series and any flow
  statistics, holders and token,
  \<open>analyzeToken\<close> returns the outcome of the three layers and does not throw; for all
  inputs \<open>predictOutcome\<close> returns a combined score, a dip confidence and an expected dip
  depth in [0,100], \<open>computeStructuralSignals\<close> a structural score in [0,100], and
  \<open>computeMicrostructureSignals\<close> a micro score that is in [0,100] or \<open>NaN\<close>, and in
  [0,100] when the prices, the 15m and 1h buy ratios, the transactions per minute and the MEV
  score are finite; the wallet quality score, the overall quality score, the liquidity health
  score and the exhaustion score are in [0,100].
\<close>

lemma analyzeToken_returns:
  assumes "priceHistory \<noteq> []"
  shows "analyzeToken priceHistory tx holders tok =
           Inr (predictOutcome (PricePoint.price (last priceHistory))
                  (computeMicrostructureSignals priceHistory tx (Some tok))
                  (computeStructuralSignals holders tx tok priceHistory),
                computeMicrostructureSignals priceHistory tx (Some tok),
                computeStructuralSignals holders tx tok priceHistory)
       \<and> score_range (combinedScore (predictOutcome p m s))
       \<and> score_range (dipConfidence (predictOutcome p m s))
       \<and> score_range (expectedDipDepthPct (predictOutcome p m s))
       \<and> score_range (structuralScore (computeStructuralSignals holders tx tok ph))
       \<and> (microScore (computeMicrostructureSignals ph tx t) = NaN
            \<or> score_range (microScore (computeMicrostructureSignals ph tx t)))
       \<and> ((\<forall>pt \<in> set ph. isFinite (PricePoint.price pt))
            \<and> isFinite (buySellRatio15m tx) \<and> isFinite (buySellRatio1h tx)
            \<and> isFinite (transactionsPerMinute tx) \<and> isFinite (MevPatterns.score (mevPatterns tx))
            \<longrightarrow> score_range (microScore (computeMicrostructureSignals ph tx t)))
       \<and> score_range (WalletQualityScore.score (classifyWallet h))
       \<and> score_range (overallQualityScore (WalletQuality_analyze holders))
       \<and> score_range (healthScore (LPHealth_analyze tok))
       \<and> score_range (exhaustionScore (SellerExhaustion_analyze tx ph))"
proof -
  have "analyzeToken priceHistory tx holders tok =
           Inr (predictOutcome (PricePoint.price (last priceHistory))
                  (computeMicrostructureSignals priceHistory tx (Some tok))
                  (computeStructuralSignals holders tx tok priceHistory),
                computeMicrostructureSignals priceHistory tx (Some tok),
                computeStructuralSignals holders tx tok priceHistory)"
    using assms by (cases priceHistory) (simp_all add: analyzeToken_def Let_def)
  then show ?thesis
    using outcome_ranges [of p m s] structural_score_range [of holders tx tok ph]
      micro_score_range [of ph tx t] micro_score_finite [of ph tx t]
      classify_ranges(1) [of h] component_ranges(1) [of holders] component_ranges(2) [of tok]
      component_ranges(3) [of tx ph]
    by blast
qed

lemma quiet_pipeline:
  "computeMicrostructureSignals onePrice getEmptyAnalysis (Some (tokenOf None None)) = quietMicro"
  by (simp add: computeMicrostructureSignals_def Let_def onePrice_def getEmptyAnalysis_def quietMicro_def
       lastN_def momentum_def slice_from_def slice_def slice_index_def stdDevRelativeChanges_def
       clampVolatility_def js_seq_def js_sub_def js_gt_def Math_max_def Math_min_def
       volatilityCompressionPct_def volatilityCollapseStdDev_def)

lemma empty_structural_score: "structuralScore emptyStructural = Fin 51"
proof -
  have l: "healthScore (LPHealth_analyze (tokenOf None None)) = Fin 60"
    by (simp add: lp_score lp_ratio or_default_def js_gt_def spec_liquidity_deduction_def)
  have e: "exhaustionScore (SellerExhaustion_analyze getEmptyAnalysis onePrice) = Fin 10"
    by (simp add: SellerExhaustion_analyze_def Let_def SellerExhaustion_init_def if_then_def
      add_exhaustion_def getEmptyAnalysis_def estimateSellVolume15m_def js_sub_def js_gt_def
      calculateVolatilityTrend_def calculatePriceVolatility_def onePrice_def)
  have j: "riskScore (JeeterZone_detect getEmptyAnalysis (WalletQuality_analyze []) (tokenOf None None)) = Fin 50"
    by (simp add: risk_sum empty_other_risk truthy_and_def)
  show ?thesis
    by (simp add: emptyStructural_def computeStructuralSignals_def Let_def overall_empty l e j
         nan_to_def isNaN_def js_sub_def Math_max_def Math_min_def)
qed

lemma empty_structural_flags:
  "isJeeterZone (jeeterFlags emptyStructural)" "riskScore (jeeterFlags emptyStructural) = Fin 50"
  by (simp_all add: emptyStructural_def computeStructuralSignals_def Let_def zone_flag risk_sum
       empty_other_risk truthy_and_def js_ge_def)

lemma analyzeToken_returns_example:
  "onePrice \<noteq> []
   \<and> analyzeToken onePrice getEmptyAnalysis [] (tokenOf None None)
       = Inr (predictOutcome (Fin 2) quietMicro emptyStructural, quietMicro, emptyStructural)
   \<and> combinedScore (predictOutcome (Fin 2) quietMicro emptyStructural) = Fin 58
   \<and> score_range (dipConfidence (predictOutcome (Fin 2) quietMicro emptyStructural))
   \<and> score_range (expectedDipDepthPct (predictOutcome (Fin 2) quietMicro emptyStructural))
   \<and> list_all (\<lambda>pt. isFinite (PricePoint.price pt)) onePrice
   \<and> isFinite (buySellRatio15m getEmptyAnalysis)
   \<and> score_range (microScore quietMicro)
   \<and> score_range (structuralScore emptyStructural)"
proof -
  have ne: "onePrice \<noteq> []"
    by (simp add: onePrice_def)
  have p: "PricePoint.price (last onePrice) = Fin 2"
    by (simp add: onePrice_def)
  have c: "combinedScore (predictOutcome (Fin 2) quietMicro emptyStructural) = Fin 58"
    by (simp add: combined_score Let_def empty_structural_score combinedScoreRaw_def nan_to_def isNaN_def
         weight_microstructure_def weight_structural_def weight_volatility_def js_sub_def
         Math_max_def Math_min_def)
  have f: "\<forall>pt \<in> set onePrice. isFinite (PricePoint.price pt)"
    "isFinite (buySellRatio15m getEmptyAnalysis)" "isFinite (buySellRatio1h getEmptyAnalysis)"
    "isFinite (transactionsPerMinute getEmptyAnalysis)"
    "isFinite (MevPatterns.score (mevPatterns getEmptyAnalysis))"
    by (simp_all add: onePrice_def getEmptyAnalysis_def isFinite_def)
  show ?thesis
    using analyzeToken_returns [OF ne, where tx = getEmptyAnalysis and holders = "[]"
        and tok = "tokenOf None None" and p = "Fin 2" and m = quietMicro and s = emptyStructural
        and ph = onePrice and t = "Some (tokenOf None None)"] ne c f
    by (simp add: p quiet_pipeline emptyStructural_def [symmetric] list_all_iff)
qed

lemma hot_other_risk: "other_risk hotFlow (WalletQuality_analyze []) = 90"
  by (simp add: other_risk_def analyze_empty hotFlow_def getEmptyAnalysis_def categories_def get_count_def
       js_sub_def js_gt_def inf_times_def)

text \<open>
  C1: every public function should return a value within its documented range and never
  throw, the empty price series included. The code does not: on the empty price series, the
  default flow statistics, no holders and a token with no market data, \<open>analyzeToken\<close> throws
  a \<open>TypeError\<close> (its promise is rejected); on a flow whose 15m buy ratio is \<open>NaN\<close> the
  micro score returned is \<open>NaN\<close>; and the danger-zone risk score, documented 0-100, is 125 on
  a sell-dominated flow with MEV activity and $4k liquidity.
\<close>

theorem analyzeToken_throws_on_empty:
  "analyzeToken [] getEmptyAnalysis [] (tokenOf None None) = Inl TypeError
   \<and> microScore (computeMicrostructureSignals onePrice (getEmptyAnalysis\<lparr>buySellRatio15m := NaN\<rparr>) None)
       = NaN
   \<and> riskScore (JeeterZone_detect hotFlow (WalletQuality_analyze []) (tokenOf (Some (Fin 4000)) None))
       = Fin 125"
proof -
  have "flowEffect (getEmptyAnalysis\<lparr>buySellRatio15m := NaN\<rparr>) = NaN"
    by (simp add: flowEffect_def js_sub_def Math_max_def Math_min_def)
  then have "microScore (computeMicrostructureSignals onePrice (getEmptyAnalysis\<lparr>buySellRatio15m := NaN\<rparr>) None)
      = NaN"
    using micro_score_sum [of onePrice "getEmptyAnalysis\<lparr>buySellRatio15m := NaN\<rparr>" None]
    by (auto simp: Math_max_def Math_min_def js_sub_def)
  moreover have "riskScore (JeeterZone_detect hotFlow (WalletQuality_analyze []) (tokenOf (Some (Fin 4000)) None))
       = Fin 125"
    by (simp add: risk_sum hot_other_risk truthy_and_def truthy_def)
  ultimately show ?thesis
    by (simp add: analyzeToken_def Let_def)
qed

end
